theory Spec2Isabelle
  imports Complex_Main "HOL-Library.Word" "HOL-Library.Monad_Syntax"
begin

section \<open>Package config of elementum: the reload of the configuration\<close>

text \<open>
  The development embeds \<^verbatim>\<open>src/config/config.go\<close>. Go strings are byte lists
  (\<^typ>\<open>string\<close>), Go's \<^verbatim>\<open>int\<close> and \<^verbatim>\<open>uint64\<close> are 64-bit words (the
  width of \<^verbatim>\<open>int\<close> on amd64 and arm64), a Go \<^verbatim>\<open>error\<close> is a value of the
  datatype \<open>error\<close>, and a panic is the left summand of a sum type. What the package
  gets from its collaborators (the xbmc host, the operating system, \<^verbatim>\<open>path/filepath\<close>,
  \<^verbatim>\<open>strconv.ParseFloat\<close>, the memory probe) is a field of the record \<open>host\<close> or of
  the record \<open>filesystem\<close>.
\<close>

subsection \<open>Errors\<close>

text \<open>
  \<^verbatim>\<open>errors.New\<close> and \<^verbatim>\<open>fmt.Errorf\<close> make an error that carries its text;
  the calls of package \<^verbatim>\<open>os\<close> return a \<^verbatim>\<open>*os.PathError\<close> with the operation, the
  path and the text of the system's error.
\<close>

datatype error =
    ErrorString string
  | PathError string string string

fun Error :: "error \<Rightarrow> string" where
  "Error (ErrorString s) = s"
| "Error (PathError operation path e) = operation @ '' '' @ path @ '': '' @ e"

subsection \<open>The file system\<close>

text \<open>
  A file system is the map from paths to what is there, with what the operating system
  refuses: for each of the three calls that \<open>IsWritablePath\<close> makes, the paths at which the
  call fails for a reason other than the shape of the tree (permissions, a read-only or
  append-only directory, a file held open by another process), with the text of the error.
\<close>

datatype node = Dir | File

record filesystem =
  nodes :: "string \<rightharpoonup> node"
  stat_refused :: "string \<rightharpoonup> string"
  create_refused :: "string \<rightharpoonup> string"
  remove_refused :: "string \<rightharpoonup> string"

definition os_Stat :: "filesystem \<Rightarrow> string \<Rightarrow> error + node" where
  "os_Stat fs name =
     (case stat_refused fs name of
        Some e \<Rightarrow> Inl (PathError ''stat'' name e)
      | None \<Rightarrow>
          (case nodes fs name of
             None \<Rightarrow> Inl (PathError ''stat'' name ''no such file or directory'')
           | Some n \<Rightarrow> Inr n))"

text \<open>\<^verbatim>\<open>os.Create\<close> opens with \<^verbatim>\<open>O_RDWR|O_CREATE|O_TRUNC\<close>: an existing file is
  truncated, a directory of that name makes the call fail.\<close>

definition os_Create :: "filesystem \<Rightarrow> string \<Rightarrow> error + filesystem" where
  "os_Create fs name =
     (case create_refused fs name of
        Some e \<Rightarrow> Inl (PathError ''open'' name e)
      | None \<Rightarrow>
          (case nodes fs name of
             Some Dir \<Rightarrow> Inl (PathError ''open'' name ''is a directory'')
           | _ \<Rightarrow> Inr (fs\<lparr>nodes := (nodes fs)(name \<mapsto> File)\<rparr>)))"

definition os_Remove :: "filesystem \<Rightarrow> string \<Rightarrow> error option \<times> filesystem" where
  "os_Remove fs name =
     (case remove_refused fs name of
        Some e \<Rightarrow> (Some (PathError ''remove'' name e), fs)
      | None \<Rightarrow>
          (case nodes fs name of
             None \<Rightarrow> (Some (PathError ''remove'' name ''no such file or directory''), fs)
           | Some n \<Rightarrow> (None, fs\<lparr>nodes := (nodes fs)(name := None)\<rparr>)))"

subsection \<open>Strings\<close>

text \<open>\<^verbatim>\<open>strings.HasPrefix(s, prefix)\<close> is
  \<^verbatim>\<open>len(s) >= len(prefix) && s[:len(prefix)] == prefix\<close>.\<close>

definition HasPrefix :: "string \<Rightarrow> string \<Rightarrow> bool" where
  "HasPrefix s pre = (length pre \<le> length s \<and> take (length pre) s = pre)"

subsection \<open>IsWritablePath\<close>

text \<open>
  \<^verbatim>\<open>filepath.Join\<close> depends on the platform's separator and cleans its result, so it
  is a parameter \<open>Join\<close> of the model. The function returns the error (\<open>None\<close> is Go's
  \<^verbatim>\<open>nil\<close>) and the file system it leaves. The error of \<^verbatim>\<open>os.Remove\<close> is dropped,
  as in the source.
\<close>

definition IsWritablePath ::
  "(string \<Rightarrow> string \<Rightarrow> string) \<Rightarrow> filesystem \<Rightarrow> string \<Rightarrow> error option \<times> filesystem" where
  "IsWritablePath Join fs path =
     (if path = ''.'' then (Some (ErrorString ''Path not set''), fs)
      else if HasPrefix path ''nfs'' \<or> HasPrefix path ''smb'' then
        (Some (ErrorString (''Network paths are not supported, change '' @ path @
                            '' to a locally mounted path by the OS'')), fs)
      else
        (case os_Stat fs path of
           Inl err \<Rightarrow> (Some err, fs)
         | Inr p \<Rightarrow>
             if p \<noteq> Dir then (Some (ErrorString (path @ '' is not a valid directory'')), fs)
             else
               (let writableFile = Join path ''.writable'' in
                case os_Create fs writableFile of
                  Inl err \<Rightarrow> (Some err, fs)
                | Inr fs1 \<Rightarrow> (None, snd (os_Remove fs1 writableFile)))))"

subsection \<open>Integers and text\<close>

type_synonym int64 = "64 word"

text \<open>
  \<^verbatim>\<open>strconv.Atoi(s)\<close> is \<^verbatim>\<open>ParseInt(s, 10, 0)\<close>: an optional sign, then decimal
  digits read from the left by the loop of \<^verbatim>\<open>ParseUint\<close>. A byte that is no digit makes
  the result 0 with the syntax error; a value that leaves the range makes it the nearest
  bound with the range error. (For short texts \<^verbatim>\<open>Atoi\<close> has a fast path with the same
  results.)
\<close>

datatype num_error = ErrSyntax | ErrRange

definition is_digit :: "char \<Rightarrow> bool" where
  "is_digit c = (48 \<le> (of_char c :: nat) \<and> (of_char c :: nat) \<le> 57)"

definition digit_value :: "char \<Rightarrow> nat" where
  "digit_value c = of_char c - 48"

fun ParseUint_loop :: "nat \<Rightarrow> string \<Rightarrow> nat \<times> num_error option" where
  "ParseUint_loop n [] = (n, None)"
| "ParseUint_loop n (c # cs) =
     (if \<not> is_digit c then (0, Some ErrSyntax)
      else if n \<ge> (2 ^ 64 - 1) div 10 + 1 then (2 ^ 64 - 1, Some ErrRange)
      else
        (let n1 = n * 10 + digit_value c in
         if n1 > 2 ^ 64 - 1 then (2 ^ 64 - 1, Some ErrRange)
         else ParseUint_loop n1 cs))"

definition ParseUint :: "string \<Rightarrow> nat \<times> num_error option" where
  "ParseUint s = (if s = [] then (0, Some ErrSyntax) else ParseUint_loop 0 s)"

definition ParseInt :: "string \<Rightarrow> int \<times> num_error option" where
  "ParseInt s =
     (if s = [] then (0, Some ErrSyntax)
      else
        (let neg = (hd s = CHR ''-'');
             s1 = (if hd s = CHR ''+'' \<or> hd s = CHR ''-'' then tl s else s)
         in case ParseUint s1 of
              (un, err) \<Rightarrow>
                if err \<noteq> None \<and> err \<noteq> Some ErrRange then (0, err)
                else if \<not> neg \<and> un \<ge> 2 ^ 63 then (2 ^ 63 - 1, Some ErrRange)
                else if neg \<and> un > 2 ^ 63 then (- (2 ^ 63), Some ErrRange)
                else (if neg then - int un else int un, None)))"

definition Atoi :: "string \<Rightarrow> int64 \<times> num_error option" where
  "Atoi s = (case ParseInt s of (i, err) \<Rightarrow> (word_of_int i, err))"

text \<open>\<^verbatim>\<open>strconv.Itoa\<close>: the decimal digits of a signed integer, with \<open>-\<close> in front of
  a negative one.\<close>

fun digits10 :: "nat \<Rightarrow> string" where
  "digits10 n =
     (if n < 10 then [''0123456789'' ! n]
      else digits10 (n div 10) @ [''0123456789'' ! (n mod 10)])"

declare digits10.simps [simp del]

definition Itoa :: "int64 \<Rightarrow> string" where
  "Itoa i = (if sint i < 0 then CHR ''-'' # digits10 (nat (- sint i)) else digits10 (nat (sint i)))"

text \<open>\<^verbatim>\<open>strings.Replace(s, " ", "", -1)\<close> drops every space byte (and nothing else);
  \<^verbatim>\<open>strings.Split(s, ",")\<close> cuts at every comma and keeps empty pieces.\<close>

definition Replace_spaces :: "string \<Rightarrow> string" where
  "Replace_spaces s = filter (\<lambda>c. c \<noteq> CHR '' '') s"

fun Split_comma :: "string \<Rightarrow> string list" where
  "Split_comma [] = [[]]"
| "Split_comma (c # cs) =
     (if c = CHR '','' then [] # Split_comma cs
      else (case Split_comma cs of
              [] \<Rightarrow> [[c]]
            | w # ws \<Rightarrow> (c # w) # ws))"

subsection \<open>Floating-point values\<close>

text \<open>
  A floating-point value is a finite number, an infinity or a NaN; a finite one is kept as
  the real number it stands for. \<^verbatim>\<open>strconv.ParseFloat(s, 32)\<close> is a parameter of the
  model (field \<open>ParseFloat\<close> of the host): it returns the nearest value that a
  \<^verbatim>\<open>float32\<close> holds, so that the conversion \<^verbatim>\<open>float32(floated)\<close> changes nothing.
  \<^verbatim>\<open>int(floated)\<close> cuts the fraction off; where the result does not fit an
  \<^verbatim>\<open>int\<close> Go leaves the value to the implementation, and it is the parameter
  \<open>int_of_unrepresentable\<close>.
\<close>

datatype float32 = Finite real | PosInf | NegInf | NaN

definition truncate_real :: "real \<Rightarrow> int" where
  "truncate_real r = (if 0 \<le> r then \<lfloor>r\<rfloor> else \<lceil>r\<rceil>)"

definition float_positive :: "float32 \<Rightarrow> bool" where
  "float_positive f = (case f of Finite r \<Rightarrow> 0 < r | PosInf \<Rightarrow> True | _ \<Rightarrow> False)"

subsection \<open>The host\<close>

text \<open>
  \<open>AddonInfo\<close> and \<open>Platform\<close> have the fields of \<^verbatim>\<open>xbmc.AddonInfo\<close> and
  \<^verbatim>\<open>xbmc.Platform\<close> that the package reads. The model of \<open>Reload\<close> starts where the
  paths are validated (line 246): \<open>info\<close> and \<open>platform\<close> are the descriptors as the
  path resolution before that line leaves them.
\<close>

record AddonInfo =
  ID :: string
  Path :: string
  Profile :: string
  Home :: string
  Xbmc :: string
  TempPath :: string
  Icon :: string

record Platform =
  OS :: string

record Setting =
  Key :: string
  Type :: string
  Value :: string
  Option :: string

record host =
  info :: AddonInfo
  platform :: Platform
  GetSettingString :: "string \<Rightarrow> string"
  GetAllSettings :: "Setting list"
  GetLanguageISO639_1 :: string
  xbmc_TranslatePath :: "string \<Rightarrow> string"
  filepath_Dir :: "string \<Rightarrow> string"
  filepath_Join :: "string \<Rightarrow> string \<Rightarrow> string"
  ParseFloat :: "string \<Rightarrow> float32"
  int_of_unrepresentable :: "float32 \<Rightarrow> int64"
  TotalMemory :: "64 word"

definition int_of_float :: "host \<Rightarrow> float32 \<Rightarrow> int64" where
  "int_of_float h f =
     (case f of
        Finite r \<Rightarrow>
          if - (2 ^ 63) \<le> truncate_real r \<and> truncate_real r < 2 ^ 63
          then word_of_int (truncate_real r)
          else int_of_unrepresentable h f
      | _ \<Rightarrow> int_of_unrepresentable h f)"

definition TranslatePath :: "host \<Rightarrow> string \<Rightarrow> string" where
  "TranslatePath h path = filepath_Dir h (xbmc_TranslatePath h path)"

subsection \<open>Coercion of the raw settings\<close>

text \<open>The values an \<^verbatim>\<open>interface{}\<close> of the settings map holds: \<^verbatim>\<open>int\<close>,
  \<^verbatim>\<open>float32\<close>, \<^verbatim>\<open>bool\<close> or \<^verbatim>\<open>string\<close>. A key that is not in the map reads as
  the nil interface, \<open>None\<close>.\<close>

datatype setting_value = VInt int64 | VFloat float32 | VBool bool | VString string

text \<open>The body of the loop of lines 275 to 305: the value stored under the key of one raw
  setting. The errors of \<^verbatim>\<open>Atoi\<close> and \<^verbatim>\<open>ParseFloat\<close> are dropped.\<close>

definition coerce :: "host \<Rightarrow> Setting \<Rightarrow> setting_value" where
  "coerce h setting =
     (if Type setting = ''enum'' \<or> Type setting = ''number'' then
        VInt (fst (Atoi (Value setting)))
      else if Type setting = ''slider'' then
        (let valueInt =
               (if Option setting = ''percent'' \<or> Option setting = ''int''
                then int_of_float h (ParseFloat h (Value setting)) else 0);
             valueFloat =
               (if Option setting = ''float'' then ParseFloat h (Value setting)
                else Finite 0)
         in if float_positive valueFloat then VFloat valueFloat else VInt valueInt)
      else if Type setting = ''bool'' then VBool (Value setting = ''true'')
      else VString (Value setting))"

fun coerce_all :: "host \<Rightarrow> Setting list \<Rightarrow> (string \<rightharpoonup> setting_value) \<Rightarrow> (string \<rightharpoonup> setting_value)" where
  "coerce_all h [] settings = settings"
| "coerce_all h (setting # rest) settings =
     coerce_all h rest (settings(Key setting \<mapsto> coerce h setting))"

text \<open>Lines 273 to 305: the map of the coerced settings of the host.\<close>

definition settings_map :: "host \<Rightarrow> (string \<rightharpoonup> setting_value)" where
  "settings_map h = coerce_all h (GetAllSettings h) Map.empty"

subsection \<open>Panics and type assertions\<close>

text \<open>
  The values a panic of \<open>Reload\<close> carries: the text of \<^verbatim>\<open>panic(settingsWarning)\<close>, the
  run-time error of a failed type assertion \<^verbatim>\<open>x.(T)\<close>, and the run-time error of an
  index out of range.
\<close>

datatype panic = PanicString string | TypeAssertionError | IndexOutOfRange

text \<open>A type assertion \<^verbatim>\<open>x.(T)\<close> gives the value of type \<open>T\<close>, or \<open>None\<close> where it
  panics with the run-time error \<open>TypeAssertionError\<close>.\<close>

definition assert_int :: "setting_value option \<Rightarrow> int64 option" where
  "assert_int x = (case x of Some (VInt i) \<Rightarrow> Some i | _ \<Rightarrow> None)"

definition assert_bool :: "setting_value option \<Rightarrow> bool option" where
  "assert_bool x = (case x of Some (VBool b) \<Rightarrow> Some b | _ \<Rightarrow> None)"

definition assert_string :: "setting_value option \<Rightarrow> string option" where
  "assert_string x = (case x of Some (VString s) \<Rightarrow> Some s | _ \<Rightarrow> None)"

definition bind_panic :: "panic + 'a \<Rightarrow> ('a \<Rightarrow> panic + 'b) \<Rightarrow> panic + 'b" where
  "bind_panic m f = (case m of Inl p \<Rightarrow> Inl p | Inr x \<Rightarrow> f x)"

subsection \<open>Configuration\<close>

record Configuration =
  DownloadPath :: string
  TorrentsPath :: string
  LibraryPath :: string
  Info :: AddonInfo
  Platform :: Platform
  Language :: string
  TemporaryPath :: string
  ProfilePath :: string
  HomePath :: string
  XbmcPath :: string
  SpoofUserAgent :: int64
  KeepDownloading :: int64
  KeepFilesPlaying :: int64
  KeepFilesFinished :: int64
  DisableBgProgress :: bool
  DisableBgProgressPlayback :: bool
  ForceUseTrakt :: bool
  UseCacheSelection :: bool
  UseCacheSearch :: bool
  CacheSearchDuration :: int64
  ResultsPerPage :: int64
  EnableOverlayStatus :: bool
  SilentStreamStart :: bool
  ChooseStreamAuto :: bool
  ForceLinkType :: bool
  UseOriginalTitle :: bool
  AddSpecials :: bool
  ShowUnairedSeasons :: bool
  ShowUnairedEpisodes :: bool
  SmartEpisodeMatch :: bool
  DownloadStorage :: int64
  AutoMemorySize :: bool
  AutoMemorySizeStrategy :: int64
  MemorySize :: int64
  BufferSize :: int64
  UploadRateLimit :: int64
  DownloadRateLimit :: int64
  LimitAfterBuffering :: bool
  ConnectionsLimit :: int64
  SeedTimeLimit :: int64
  DisableUpload :: bool
  DisableDHT :: bool
  DisableTCP :: bool
  DisableUTP :: bool
  DisableUPNP :: bool
  EncryptionPolicy :: int64
  ListenPortMin :: int64
  ListenPortMax :: int64
  ListenInterfaces :: string
  ListenAutoDetectIP :: bool
  ListenAutoDetectPort :: bool
  Scrobble :: bool
  TraktUsername :: string
  TraktToken :: string
  TraktRefreshToken :: string
  TraktTokenExpiry :: int64
  TraktSyncFrequency :: int64
  TraktSyncCollections :: bool
  TraktSyncWatchlist :: bool
  TraktSyncUserlists :: bool
  TraktSyncWatched :: bool
  TraktSyncWatchedBack :: bool
  UpdateFrequency :: int64
  UpdateDelay :: int64
  UpdateAutoScan :: bool
  PlayResume :: bool
  UseCloudHole :: bool
  CloudHoleKey :: string
  TMDBApiKey :: string
  OSDBUser :: string
  OSDBPass :: string
  OSDBLanguage :: string
  OSDBAutoLanguage :: bool
  SortingModeMovies :: int64
  SortingModeShows :: int64
  ResolutionPreferenceMovies :: int64
  ResolutionPreferenceShows :: int64
  PercentageAdditionalSeeders :: int64
  UsePublicDNS :: bool
  PublicDNSList :: string
  OpennicDNSList :: string
  CustomProviderTimeoutEnabled :: bool
  CustomProviderTimeout :: int64
  ProxyURL :: string
  ProxyType :: int64
  ProxyEnabled :: bool
  ProxyHost :: string
  ProxyPort :: int64
  ProxyLogin :: string
  ProxyPassword :: string
  CompletedMove :: bool
  CompletedMoviesPath :: string
  CompletedShowsPath :: string

text \<open>
  The composite literal of lines 307 to 411. Each \<^verbatim>\<open>settings["key"].(T)\<close> is a type
  assertion on what the map holds under the key, and panics when the key is missing or its
  value has another type: the result is \<open>None\<close> when one of them panics. The field
  \<open>ProxyURL\<close>, which the literal does not name, is the empty string.
\<close>

definition newConfig :: "host \<Rightarrow> string \<Rightarrow> string \<Rightarrow> (string \<rightharpoonup> setting_value) \<Rightarrow> Configuration option" where
  "newConfig h downloadPath libraryPath settings = do {
     download_storage \<leftarrow> assert_int (settings ''download_storage'');
     auto_memory_size \<leftarrow> assert_bool (settings ''auto_memory_size'');
     auto_memory_size_strategy \<leftarrow> assert_int (settings ''auto_memory_size_strategy'');
     memory_size \<leftarrow> assert_int (settings ''memory_size'');
     buffer_size \<leftarrow> assert_int (settings ''buffer_size'');
     max_upload_rate \<leftarrow> assert_int (settings ''max_upload_rate'');
     max_download_rate \<leftarrow> assert_int (settings ''max_download_rate'');
     spoof_user_agent \<leftarrow> assert_int (settings ''spoof_user_agent'');
     limit_after_buffering \<leftarrow> assert_bool (settings ''limit_after_buffering'');
     keep_downloading \<leftarrow> assert_int (settings ''keep_downloading'');
     keep_files_playing \<leftarrow> assert_int (settings ''keep_files_playing'');
     keep_files_finished \<leftarrow> assert_int (settings ''keep_files_finished'');
     disable_bg_progress \<leftarrow> assert_bool (settings ''disable_bg_progress'');
     disable_bg_progress_playback \<leftarrow> assert_bool (settings ''disable_bg_progress_playback'');
     force_use_trakt \<leftarrow> assert_bool (settings ''force_use_trakt'');
     use_cache_selection \<leftarrow> assert_bool (settings ''use_cache_selection'');
     use_cache_search \<leftarrow> assert_bool (settings ''use_cache_search'');
     cache_search_duration \<leftarrow> assert_int (settings ''cache_search_duration'');
     results_per_page \<leftarrow> assert_int (settings ''results_per_page'');
     enable_overlay_status \<leftarrow> assert_bool (settings ''enable_overlay_status'');
     silent_stream_start \<leftarrow> assert_bool (settings ''silent_stream_start'');
     choose_stream_auto \<leftarrow> assert_bool (settings ''choose_stream_auto'');
     force_link_type \<leftarrow> assert_bool (settings ''force_link_type'');
     use_original_title \<leftarrow> assert_bool (settings ''use_original_title'');
     add_specials \<leftarrow> assert_bool (settings ''add_specials'');
     unaired_seasons \<leftarrow> assert_bool (settings ''unaired_seasons'');
     unaired_episodes \<leftarrow> assert_bool (settings ''unaired_episodes'');
     smart_episode_match \<leftarrow> assert_bool (settings ''smart_episode_match'');
     seed_time_limit \<leftarrow> assert_int (settings ''seed_time_limit'');
     disable_upload \<leftarrow> assert_bool (settings ''disable_upload'');
     disable_dht \<leftarrow> assert_bool (settings ''disable_dht'');
     disable_tcp \<leftarrow> assert_bool (settings ''disable_tcp'');
     disable_utp \<leftarrow> assert_bool (settings ''disable_utp'');
     disable_upnp \<leftarrow> assert_bool (settings ''disable_upnp'');
     encryption_policy \<leftarrow> assert_int (settings ''encryption_policy'');
     listen_port_min \<leftarrow> assert_int (settings ''listen_port_min'');
     listen_port_max \<leftarrow> assert_int (settings ''listen_port_max'');
     listen_interfaces \<leftarrow> assert_string (settings ''listen_interfaces'');
     listen_autodetect_ip \<leftarrow> assert_bool (settings ''listen_autodetect_ip'');
     listen_autodetect_port \<leftarrow> assert_bool (settings ''listen_autodetect_port'');
     connections_limit \<leftarrow> assert_int (settings ''connections_limit'');
     trakt_scrobble \<leftarrow> assert_bool (settings ''trakt_scrobble'');
     trakt_username \<leftarrow> assert_string (settings ''trakt_username'');
     trakt_token \<leftarrow> assert_string (settings ''trakt_token'');
     trakt_refresh_token \<leftarrow> assert_string (settings ''trakt_refresh_token'');
     trakt_token_expiry \<leftarrow> assert_int (settings ''trakt_token_expiry'');
     trakt_sync \<leftarrow> assert_int (settings ''trakt_sync'');
     trakt_sync_collections \<leftarrow> assert_bool (settings ''trakt_sync_collections'');
     trakt_sync_watchlist \<leftarrow> assert_bool (settings ''trakt_sync_watchlist'');
     trakt_sync_userlists \<leftarrow> assert_bool (settings ''trakt_sync_userlists'');
     trakt_sync_watched \<leftarrow> assert_bool (settings ''trakt_sync_watched'');
     trakt_sync_watchedback \<leftarrow> assert_bool (settings ''trakt_sync_watchedback'');
     library_update_frequency \<leftarrow> assert_int (settings ''library_update_frequency'');
     library_update_delay \<leftarrow> assert_int (settings ''library_update_delay'');
     library_auto_scan \<leftarrow> assert_bool (settings ''library_auto_scan'');
     play_resume \<leftarrow> assert_bool (settings ''play_resume'');
     use_cloudhole \<leftarrow> assert_bool (settings ''use_cloudhole'');
     cloudhole_key \<leftarrow> assert_string (settings ''cloudhole_key'');
     tmdb_api_key \<leftarrow> assert_string (settings ''tmdb_api_key'');
     osdb_user \<leftarrow> assert_string (settings ''osdb_user'');
     osdb_pass \<leftarrow> assert_string (settings ''osdb_pass'');
     osdb_language \<leftarrow> assert_string (settings ''osdb_language'');
     osdb_auto_language \<leftarrow> assert_bool (settings ''osdb_auto_language'');
     sorting_mode_movies \<leftarrow> assert_int (settings ''sorting_mode_movies'');
     sorting_mode_shows \<leftarrow> assert_int (settings ''sorting_mode_shows'');
     resolution_preference_movies \<leftarrow> assert_int (settings ''resolution_preference_movies'');
     resolution_preference_shows \<leftarrow> assert_int (settings ''resolution_preference_shows'');
     percentage_additional_seeders \<leftarrow> assert_int (settings ''percentage_additional_seeders'');
     use_public_dns \<leftarrow> assert_bool (settings ''use_public_dns'');
     public_dns_list \<leftarrow> assert_string (settings ''public_dns_list'');
     opennic_dns_list \<leftarrow> assert_string (settings ''opennic_dns_list'');
     custom_provider_timeout_enabled \<leftarrow> assert_bool (settings ''custom_provider_timeout_enabled'');
     custom_provider_timeout \<leftarrow> assert_int (settings ''custom_provider_timeout'');
     proxy_type \<leftarrow> assert_int (settings ''proxy_type'');
     proxy_enabled \<leftarrow> assert_bool (settings ''proxy_enabled'');
     proxy_host \<leftarrow> assert_string (settings ''proxy_host'');
     proxy_port \<leftarrow> assert_int (settings ''proxy_port'');
     proxy_login \<leftarrow> assert_string (settings ''proxy_login'');
     proxy_password \<leftarrow> assert_string (settings ''proxy_password'');
     completed_move \<leftarrow> assert_bool (settings ''completed_move'');
     completed_movies_path \<leftarrow> assert_string (settings ''completed_movies_path'');
     completed_shows_path \<leftarrow> assert_string (settings ''completed_shows_path'');
     Some \<lparr>
       DownloadPath = downloadPath,
       TorrentsPath = filepath_Join h downloadPath ''Torrents'',
       LibraryPath = libraryPath,
       Info = info h,
       Platform = platform h,
       Language = GetLanguageISO639_1 h,
       TemporaryPath = TempPath (info h),
       ProfilePath = Profile (info h),
       HomePath = Home (info h),
       XbmcPath = Xbmc (info h),
       SpoofUserAgent = spoof_user_agent,
       KeepDownloading = keep_downloading,
       KeepFilesPlaying = keep_files_playing,
       KeepFilesFinished = keep_files_finished,
       DisableBgProgress = disable_bg_progress,
       DisableBgProgressPlayback = disable_bg_progress_playback,
       ForceUseTrakt = force_use_trakt,
       UseCacheSelection = use_cache_selection,
       UseCacheSearch = use_cache_search,
       CacheSearchDuration = cache_search_duration,
       ResultsPerPage = results_per_page,
       EnableOverlayStatus = enable_overlay_status,
       SilentStreamStart = silent_stream_start,
       ChooseStreamAuto = choose_stream_auto,
       ForceLinkType = force_link_type,
       UseOriginalTitle = use_original_title,
       AddSpecials = add_specials,
       ShowUnairedSeasons = unaired_seasons,
       ShowUnairedEpisodes = unaired_episodes,
       SmartEpisodeMatch = smart_episode_match,
       DownloadStorage = download_storage,
       AutoMemorySize = auto_memory_size,
       AutoMemorySizeStrategy = auto_memory_size_strategy,
       MemorySize = memory_size * 1024 * 1024,
       BufferSize = buffer_size * 1024 * 1024,
       UploadRateLimit = max_upload_rate * 1024,
       DownloadRateLimit = max_download_rate * 1024,
       LimitAfterBuffering = limit_after_buffering,
       ConnectionsLimit = connections_limit,
       SeedTimeLimit = seed_time_limit,
       DisableUpload = disable_upload,
       DisableDHT = disable_dht,
       DisableTCP = disable_tcp,
       DisableUTP = disable_utp,
       DisableUPNP = disable_upnp,
       EncryptionPolicy = encryption_policy,
       ListenPortMin = listen_port_min,
       ListenPortMax = listen_port_max,
       ListenInterfaces = listen_interfaces,
       ListenAutoDetectIP = listen_autodetect_ip,
       ListenAutoDetectPort = listen_autodetect_port,
       Scrobble = trakt_scrobble,
       TraktUsername = trakt_username,
       TraktToken = trakt_token,
       TraktRefreshToken = trakt_refresh_token,
       TraktTokenExpiry = trakt_token_expiry,
       TraktSyncFrequency = trakt_sync,
       TraktSyncCollections = trakt_sync_collections,
       TraktSyncWatchlist = trakt_sync_watchlist,
       TraktSyncUserlists = trakt_sync_userlists,
       TraktSyncWatched = trakt_sync_watched,
       TraktSyncWatchedBack = trakt_sync_watchedback,
       UpdateFrequency = library_update_frequency,
       UpdateDelay = library_update_delay,
       UpdateAutoScan = library_auto_scan,
       PlayResume = play_resume,
       UseCloudHole = use_cloudhole,
       CloudHoleKey = cloudhole_key,
       TMDBApiKey = tmdb_api_key,
       OSDBUser = osdb_user,
       OSDBPass = osdb_pass,
       OSDBLanguage = osdb_language,
       OSDBAutoLanguage = osdb_auto_language,
       SortingModeMovies = sorting_mode_movies,
       SortingModeShows = sorting_mode_shows,
       ResolutionPreferenceMovies = resolution_preference_movies,
       ResolutionPreferenceShows = resolution_preference_shows,
       PercentageAdditionalSeeders = percentage_additional_seeders,
       UsePublicDNS = use_public_dns,
       PublicDNSList = public_dns_list,
       OpennicDNSList = opennic_dns_list,
       CustomProviderTimeoutEnabled = custom_provider_timeout_enabled,
       CustomProviderTimeout = custom_provider_timeout,
       ProxyURL = '''',
       ProxyType = proxy_type,
       ProxyEnabled = proxy_enabled,
       ProxyHost = proxy_host,
       ProxyPort = proxy_port,
       ProxyLogin = proxy_login,
       ProxyPassword = proxy_password,
       CompletedMove = completed_move,
       CompletedMoviesPath = completed_movies_path,
       CompletedShowsPath = completed_shows_path\<rparr>}"

subsection \<open>Reload\<close>

text \<open>
  The package's variables that \<open>Reload\<close> writes before it publishes, and the file system. A
  resolver of \<^verbatim>\<open>dns_resolver\<close> is kept as the list of servers it was made from.
\<close>

datatype DnsResolver = New "string list"

record state =
  settingsWarning :: string
  ResolverPublic :: DnsResolver
  ResolverOpennic :: DnsResolver
  files :: filesystem

definition maxMemorySize :: int64 where
  "maxMemorySize = 200 * 1024 * 1024"

definition proxyTypes :: "string list" where
  "proxyTypes = [''Socks4'', ''Socks5'', ''HTTP'', ''HTTPS'']"

text \<open>Lines 246 to 271: the download path and the library path. The result is the panic or
  the two paths, with the state as the checks and the assignments to \<open>settingsWarning\<close>
  leave it.\<close>

definition validate_paths :: "host \<Rightarrow> state \<Rightarrow> (panic + string \<times> string) \<times> state" where
  "validate_paths h st =
     (let downloadPath = TranslatePath h (GetSettingString h ''download_path'') in
      if downloadPath = ''.'' then
        (Inl (PanicString ''LOCALIZE[30113]''), st\<lparr>settingsWarning := ''LOCALIZE[30113]''\<rparr>)
      else
        (case IsWritablePath (filepath_Join h) (files st) downloadPath of
           (Some err, fs1) \<Rightarrow>
             (Inl (PanicString (Error err)), st\<lparr>settingsWarning := Error err, files := fs1\<rparr>)
         | (None, fs1) \<Rightarrow>
             (let libraryPath = TranslatePath h (GetSettingString h ''library_path'') in
              if libraryPath = ''.'' then (Inr (downloadPath, downloadPath), st\<lparr>files := fs1\<rparr>)
              else
                (case IsWritablePath (filepath_Join h) fs1 libraryPath of
                   (Some err, fs2) \<Rightarrow>
                     (Inl (PanicString (Error err)),
                      st\<lparr>settingsWarning := Error err, files := fs2\<rparr>)
                 | (None, fs2) \<Rightarrow> (Inr (downloadPath, libraryPath), st\<lparr>files := fs2\<rparr>)))))"

text \<open>Lines 415 to 442: memory storage. The integer arithmetic wraps at 64 bits; the
  conversions between \<^verbatim>\<open>int\<close> and \<^verbatim>\<open>uint64\<close> keep the bits; \<open>div\<close> on words is the
  unsigned division and \<open><\<close> the unsigned order, \<open><s\<close> the signed one.\<close>

definition memory_storage :: "host \<Rightarrow> Configuration \<Rightarrow> Configuration" where
  "memory_storage h newConfig0 =
     (if DownloadStorage newConfig0 = 1 then
        (let c1 = newConfig0\<lparr>CompletedMove := False, KeepDownloading := 2,
                             KeepFilesFinished := 2, KeepFilesPlaying := 2\<rparr>
         in if AutoMemorySize c1 then
              (if AutoMemorySizeStrategy c1 = 0 then c1\<lparr>MemorySize := 40 * 1024 * 1024\<rparr>
               else
                 (let pct = 5 + (5 * (AutoMemorySizeStrategy c1 - 1));
                      mem = TotalMemory h div 100 * pct;
                      c2 = (if 0 < mem then c1\<lparr>MemorySize := mem\<rparr> else c1)
                  in if maxMemorySize <s MemorySize c2 then c2\<lparr>MemorySize := maxMemorySize\<rparr>
                     else c2))
            else c1)
      else newConfig0)"

text \<open>Lines 445 to 452: the defaults of the Trakt frequency and of the OSDB language.\<close>

definition trakt_frequency :: "Configuration \<Rightarrow> Configuration" where
  "trakt_frequency c =
     (if TraktToken c \<noteq> '''' \<and> TraktSyncFrequency c = 0 then c\<lparr>TraktSyncFrequency := 6\<rparr>
      else c)"

definition osdb_language :: "Configuration \<Rightarrow> Configuration" where
  "osdb_language c =
     (if OSDBAutoLanguage c \<or> OSDBLanguage c = '''' then c\<lparr>OSDBLanguage := Language c\<rparr>
      else c)"

text \<open>Lines 455 to 462: the proxy URL. Indexing \<open>proxyTypes\<close> outside its bounds panics.\<close>

definition index_proxyTypes :: "int64 \<Rightarrow> panic + string" where
  "index_proxyTypes i =
     (if 0 \<le> sint i \<and> sint i < int (length proxyTypes) then Inr (proxyTypes ! nat (sint i))
      else Inl IndexOutOfRange)"

definition proxy_settings :: "Configuration \<Rightarrow> panic + Configuration" where
  "proxy_settings c =
     (if ProxyEnabled c \<and> ProxyHost c \<noteq> '''' then
        bind_panic (index_proxyTypes (ProxyType c)) (\<lambda>scheme.
          (let c1 = c\<lparr>ProxyURL := scheme @ ''://''\<rparr>;
               c2 = (if ProxyLogin c1 \<noteq> '''' \<or> ProxyPassword c1 \<noteq> '''' then
                       c1\<lparr>ProxyURL := ProxyURL c1 @ ProxyLogin c1 @ '':'' @ ProxyPassword c1 @ ''@''\<rparr>
                     else c1)
           in Inr (c2\<lparr>ProxyURL := ProxyURL c2 @ ProxyHost c2 @ '':'' @ Itoa (ProxyPort c2)\<rparr>)))
      else Inr c)"

text \<open>Lines 465 to 473: the DNS resolvers.\<close>

definition reload_resolvers :: "Configuration \<Rightarrow> state \<Rightarrow> Configuration \<times> state" where
  "reload_resolvers c st =
     (let c1 = c\<lparr>PublicDNSList := Replace_spaces (PublicDNSList c)\<rparr>;
          st1 = (if PublicDNSList c1 \<noteq> '''' then
                   st\<lparr>ResolverPublic := New (Split_comma (PublicDNSList c1))\<rparr>
                 else st);
          c2 = c1\<lparr>OpennicDNSList := Replace_spaces (OpennicDNSList c1)\<rparr>;
          st2 = (if OpennicDNSList c2 \<noteq> '''' then
                   st1\<lparr>ResolverOpennic := New (Split_comma (OpennicDNSList c2))\<rparr>
                 else st1)
      in (c2, st2))"

text \<open>Lines 477 to 479: the default of the connection limit.\<close>

definition connections_limit :: "Configuration \<Rightarrow> Configuration" where
  "connections_limit c = (if ConnectionsLimit c = 0 then c\<lparr>ConnectionsLimit := 50\<rparr> else c)"

text \<open>The body of \<open>Reload\<close> from line 246 on: the panic that ends it, or the Configuration
  that it stores in \<open>config\<close> and returns.\<close>

definition Reload_body :: "host \<Rightarrow> state \<Rightarrow> (panic + Configuration) \<times> state" where
  "Reload_body h st =
     (case validate_paths h st of
        (Inl p, st1) \<Rightarrow> (Inl p, st1)
      | (Inr (downloadPath, libraryPath), st1) \<Rightarrow>
          (let settings = settings_map h in
           case newConfig h downloadPath libraryPath settings of
             None \<Rightarrow> (Inl TypeAssertionError, st1)
           | Some c0 \<Rightarrow>
               (case proxy_settings (osdb_language (trakt_frequency (memory_storage h c0))) of
                  Inl p \<Rightarrow> (Inl p, st1)
                | Inr c1 \<Rightarrow>
                    (case reload_resolvers c1 st1 of
                       (c2, st2) \<Rightarrow> (Inr (connections_limit c2), st2)))))"

text \<open>
  The deferred function of lines 181 to 198 recovers every panic: it takes
  \<open>settingsWarning\<close> as the message, or \<open>LOCALIZE[30314]\<close> when that is empty, opens the
  settings of the add-on, shows the message in a dialog, waits until the settings are closed
  and exits with status 5. \<open>Aborted message\<close> is that path with its message;
  \<open>Published c\<close> is the return of \<open>Reload\<close> with \<open>config\<close> set to \<open>c\<close>.
\<close>

datatype outcome = is_Published: Published (published: Configuration) | Aborted (message: string)

definition Reload :: "host \<Rightarrow> state \<Rightarrow> outcome \<times> state" where
  "Reload h st =
     (case Reload_body h st of
        (Inl r, st1) \<Rightarrow>
          (let message = (if settingsWarning st1 \<noteq> '''' then settingsWarning st1
                          else ''LOCALIZE[30314]'')
           in (Aborted message, st1))
      | (Inr c, st1) \<Rightarrow> (Published c, st1))"


subsection \<open>Settings that pass the type assertions\<close>

text \<open>
  The keys that the literal reads with the type it asserts for each, in the order of the
  literal, and the literal written with the values taken out of the map.
  \<open>well_typed settings\<close> says that every key is in the map with a value of the asserted
  type.
\<close>

datatype go_type = TInt | TBool | TString

definition has_type :: "go_type \<Rightarrow> setting_value option \<Rightarrow> bool" where
  "has_type t x =
     (case x of
        Some (VInt i) \<Rightarrow> t = TInt
      | Some (VBool b) \<Rightarrow> t = TBool
      | Some (VString s) \<Rightarrow> t = TString
      | _ \<Rightarrow> False)"

definition the_int :: "setting_value option \<Rightarrow> int64" where
  "the_int x = (case x of Some (VInt i) \<Rightarrow> i | _ \<Rightarrow> 0)"

definition the_bool :: "setting_value option \<Rightarrow> bool" where
  "the_bool x = (case x of Some (VBool b) \<Rightarrow> b | _ \<Rightarrow> False)"

definition the_string :: "setting_value option \<Rightarrow> string" where
  "the_string x = (case x of Some (VString s) \<Rightarrow> s | _ \<Rightarrow> [])"

definition asserted :: "(string \<times> go_type) list" where
  "asserted = [
    (''download_storage'', TInt), (''auto_memory_size'', TBool),
    (''auto_memory_size_strategy'', TInt), (''memory_size'', TInt), (''buffer_size'', TInt),
    (''max_upload_rate'', TInt), (''max_download_rate'', TInt), (''spoof_user_agent'', TInt),
    (''limit_after_buffering'', TBool), (''keep_downloading'', TInt),
    (''keep_files_playing'', TInt), (''keep_files_finished'', TInt),
    (''disable_bg_progress'', TBool), (''disable_bg_progress_playback'', TBool),
    (''force_use_trakt'', TBool), (''use_cache_selection'', TBool),
    (''use_cache_search'', TBool), (''cache_search_duration'', TInt),
    (''results_per_page'', TInt), (''enable_overlay_status'', TBool),
    (''silent_stream_start'', TBool), (''choose_stream_auto'', TBool),
    (''force_link_type'', TBool), (''use_original_title'', TBool), (''add_specials'', TBool),
    (''unaired_seasons'', TBool), (''unaired_episodes'', TBool),
    (''smart_episode_match'', TBool), (''seed_time_limit'', TInt), (''disable_upload'', TBool),
    (''disable_dht'', TBool), (''disable_tcp'', TBool), (''disable_utp'', TBool),
    (''disable_upnp'', TBool), (''encryption_policy'', TInt), (''listen_port_min'', TInt),
    (''listen_port_max'', TInt), (''listen_interfaces'', TString),
    (''listen_autodetect_ip'', TBool), (''listen_autodetect_port'', TBool),
    (''connections_limit'', TInt), (''trakt_scrobble'', TBool), (''trakt_username'', TString),
    (''trakt_token'', TString), (''trakt_refresh_token'', TString),
    (''trakt_token_expiry'', TInt), (''trakt_sync'', TInt),
    (''trakt_sync_collections'', TBool), (''trakt_sync_watchlist'', TBool),
    (''trakt_sync_userlists'', TBool), (''trakt_sync_watched'', TBool),
    (''trakt_sync_watchedback'', TBool), (''library_update_frequency'', TInt),
    (''library_update_delay'', TInt), (''library_auto_scan'', TBool), (''play_resume'', TBool),
    (''use_cloudhole'', TBool), (''cloudhole_key'', TString), (''tmdb_api_key'', TString),
    (''osdb_user'', TString), (''osdb_pass'', TString), (''osdb_language'', TString),
    (''osdb_auto_language'', TBool), (''sorting_mode_movies'', TInt),
    (''sorting_mode_shows'', TInt), (''resolution_preference_movies'', TInt),
    (''resolution_preference_shows'', TInt), (''percentage_additional_seeders'', TInt),
    (''use_public_dns'', TBool), (''public_dns_list'', TString),
    (''opennic_dns_list'', TString), (''custom_provider_timeout_enabled'', TBool),
    (''custom_provider_timeout'', TInt), (''proxy_type'', TInt), (''proxy_enabled'', TBool),
    (''proxy_host'', TString), (''proxy_port'', TInt), (''proxy_login'', TString),
    (''proxy_password'', TString), (''completed_move'', TBool),
    (''completed_movies_path'', TString), (''completed_shows_path'', TString)]"

definition well_typed :: "(string \<rightharpoonup> setting_value) \<Rightarrow> bool" where
  "well_typed settings = list_all (\<lambda>(k, t). has_type t (settings k)) asserted"

definition config_literal :: "host \<Rightarrow> string \<Rightarrow> string \<Rightarrow> (string \<rightharpoonup> setting_value) \<Rightarrow> Configuration" where
  "config_literal h downloadPath libraryPath settings = \<lparr>
       DownloadPath = downloadPath,
       TorrentsPath = filepath_Join h downloadPath ''Torrents'',
       LibraryPath = libraryPath,
       Info = info h,
       Platform = platform h,
       Language = GetLanguageISO639_1 h,
       TemporaryPath = TempPath (info h),
       ProfilePath = Profile (info h),
       HomePath = Home (info h),
       XbmcPath = Xbmc (info h),
       SpoofUserAgent = the_int (settings ''spoof_user_agent''),
       KeepDownloading = the_int (settings ''keep_downloading''),
       KeepFilesPlaying = the_int (settings ''keep_files_playing''),
       KeepFilesFinished = the_int (settings ''keep_files_finished''),
       DisableBgProgress = the_bool (settings ''disable_bg_progress''),
       DisableBgProgressPlayback = the_bool (settings ''disable_bg_progress_playback''),
       ForceUseTrakt = the_bool (settings ''force_use_trakt''),
       UseCacheSelection = the_bool (settings ''use_cache_selection''),
       UseCacheSearch = the_bool (settings ''use_cache_search''),
       CacheSearchDuration = the_int (settings ''cache_search_duration''),
       ResultsPerPage = the_int (settings ''results_per_page''),
       EnableOverlayStatus = the_bool (settings ''enable_overlay_status''),
       SilentStreamStart = the_bool (settings ''silent_stream_start''),
       ChooseStreamAuto = the_bool (settings ''choose_stream_auto''),
       ForceLinkType = the_bool (settings ''force_link_type''),
       UseOriginalTitle = the_bool (settings ''use_original_title''),
       AddSpecials = the_bool (settings ''add_specials''),
       ShowUnairedSeasons = the_bool (settings ''unaired_seasons''),
       ShowUnairedEpisodes = the_bool (settings ''unaired_episodes''),
       SmartEpisodeMatch = the_bool (settings ''smart_episode_match''),
       DownloadStorage = the_int (settings ''download_storage''),
       AutoMemorySize = the_bool (settings ''auto_memory_size''),
       AutoMemorySizeStrategy = the_int (settings ''auto_memory_size_strategy''),
       MemorySize = the_int (settings ''memory_size'') * 1024 * 1024,
       BufferSize = the_int (settings ''buffer_size'') * 1024 * 1024,
       UploadRateLimit = the_int (settings ''max_upload_rate'') * 1024,
       DownloadRateLimit = the_int (settings ''max_download_rate'') * 1024,
       LimitAfterBuffering = the_bool (settings ''limit_after_buffering''),
       ConnectionsLimit = the_int (settings ''connections_limit''),
       SeedTimeLimit = the_int (settings ''seed_time_limit''),
       DisableUpload = the_bool (settings ''disable_upload''),
       DisableDHT = the_bool (settings ''disable_dht''),
       DisableTCP = the_bool (settings ''disable_tcp''),
       DisableUTP = the_bool (settings ''disable_utp''),
       DisableUPNP = the_bool (settings ''disable_upnp''),
       EncryptionPolicy = the_int (settings ''encryption_policy''),
       ListenPortMin = the_int (settings ''listen_port_min''),
       ListenPortMax = the_int (settings ''listen_port_max''),
       ListenInterfaces = the_string (settings ''listen_interfaces''),
       ListenAutoDetectIP = the_bool (settings ''listen_autodetect_ip''),
       ListenAutoDetectPort = the_bool (settings ''listen_autodetect_port''),
       Scrobble = the_bool (settings ''trakt_scrobble''),
       TraktUsername = the_string (settings ''trakt_username''),
       TraktToken = the_string (settings ''trakt_token''),
       TraktRefreshToken = the_string (settings ''trakt_refresh_token''),
       TraktTokenExpiry = the_int (settings ''trakt_token_expiry''),
       TraktSyncFrequency = the_int (settings ''trakt_sync''),
       TraktSyncCollections = the_bool (settings ''trakt_sync_collections''),
       TraktSyncWatchlist = the_bool (settings ''trakt_sync_watchlist''),
       TraktSyncUserlists = the_bool (settings ''trakt_sync_userlists''),
       TraktSyncWatched = the_bool (settings ''trakt_sync_watched''),
       TraktSyncWatchedBack = the_bool (settings ''trakt_sync_watchedback''),
       UpdateFrequency = the_int (settings ''library_update_frequency''),
       UpdateDelay = the_int (settings ''library_update_delay''),
       UpdateAutoScan = the_bool (settings ''library_auto_scan''),
       PlayResume = the_bool (settings ''play_resume''),
       UseCloudHole = the_bool (settings ''use_cloudhole''),
       CloudHoleKey = the_string (settings ''cloudhole_key''),
       TMDBApiKey = the_string (settings ''tmdb_api_key''),
       OSDBUser = the_string (settings ''osdb_user''),
       OSDBPass = the_string (settings ''osdb_pass''),
       OSDBLanguage = the_string (settings ''osdb_language''),
       OSDBAutoLanguage = the_bool (settings ''osdb_auto_language''),
       SortingModeMovies = the_int (settings ''sorting_mode_movies''),
       SortingModeShows = the_int (settings ''sorting_mode_shows''),
       ResolutionPreferenceMovies = the_int (settings ''resolution_preference_movies''),
       ResolutionPreferenceShows = the_int (settings ''resolution_preference_shows''),
       PercentageAdditionalSeeders = the_int (settings ''percentage_additional_seeders''),
       UsePublicDNS = the_bool (settings ''use_public_dns''),
       PublicDNSList = the_string (settings ''public_dns_list''),
       OpennicDNSList = the_string (settings ''opennic_dns_list''),
       CustomProviderTimeoutEnabled = the_bool (settings ''custom_provider_timeout_enabled''),
       CustomProviderTimeout = the_int (settings ''custom_provider_timeout''),
       ProxyURL = '''',
       ProxyType = the_int (settings ''proxy_type''),
       ProxyEnabled = the_bool (settings ''proxy_enabled''),
       ProxyHost = the_string (settings ''proxy_host''),
       ProxyPort = the_int (settings ''proxy_port''),
       ProxyLogin = the_string (settings ''proxy_login''),
       ProxyPassword = the_string (settings ''proxy_password''),
       CompletedMove = the_bool (settings ''completed_move''),
       CompletedMoviesPath = the_string (settings ''completed_movies_path''),
       CompletedShowsPath = the_string (settings ''completed_shows_path'')\<rparr>"
text \<open>Two file systems for the examples: a directory \<open>/d\<close> that takes new files, and the
  same directory where the marker cannot be removed once it is there.\<close>

definition join_slash :: "string \<Rightarrow> string \<Rightarrow> string" where
  "join_slash a b = a @ ''/'' @ b"

definition fs_plain :: filesystem where
  "fs_plain = \<lparr>nodes = [''/d'' \<mapsto> Dir, ''/d/f'' \<mapsto> File], stat_refused = Map.empty,
               create_refused = Map.empty, remove_refused = Map.empty\<rparr>"

definition fs_keep :: filesystem where
  "fs_keep = fs_plain\<lparr>remove_refused := [''/d/.writable'' \<mapsto> ''operation not permitted'']\<rparr>"

definition fs_readonly :: filesystem where
  "fs_readonly = fs_plain\<lparr>create_refused := [''/d/.writable'' \<mapsto> ''permission denied'']\<rparr>"

text \<open>
  A host for the examples. Its settings are \<open>example_settings\<close> followed by the settings
  \<open>extra\<close>, which override earlier ones of the same key; memory storage with automatic
  size and strategy 1, a proxy of type 1 at \<open>h:1080\<close> without credentials, and a list of
  public DNS servers with spaces in it. The download and library settings are \<open>dl\<close> and
  \<open>lib\<close>; the host translates a path to itself, and \<open>dir_example\<close> is
  \<^verbatim>\<open>filepath.Dir\<close> on the paths that occur (the empty path has the directory \<open>.\<close>).
\<close>

definition example_settings :: "Setting list" where
  "example_settings = [
    \<lparr>Key = ''download_storage'', Type = ''enum'', Value = ''1'', Option = ''''\<rparr>,
    \<lparr>Key = ''auto_memory_size'', Type = ''bool'', Value = ''true'', Option = ''''\<rparr>,
    \<lparr>Key = ''auto_memory_size_strategy'', Type = ''enum'', Value = ''1'', Option = ''''\<rparr>,
    \<lparr>Key = ''memory_size'', Type = ''slider'', Value = ''100'', Option = ''int''\<rparr>,
    \<lparr>Key = ''buffer_size'', Type = ''slider'', Value = ''20'', Option = ''int''\<rparr>,
    \<lparr>Key = ''max_upload_rate'', Type = ''number'', Value = ''0'', Option = ''''\<rparr>,
    \<lparr>Key = ''max_download_rate'', Type = ''number'', Value = ''0'', Option = ''''\<rparr>,
    \<lparr>Key = ''spoof_user_agent'', Type = ''enum'', Value = ''0'', Option = ''''\<rparr>,
    \<lparr>Key = ''limit_after_buffering'', Type = ''bool'', Value = ''false'', Option = ''''\<rparr>,
    \<lparr>Key = ''keep_downloading'', Type = ''enum'', Value = ''1'', Option = ''''\<rparr>,
    \<lparr>Key = ''keep_files_playing'', Type = ''enum'', Value = ''1'', Option = ''''\<rparr>,
    \<lparr>Key = ''keep_files_finished'', Type = ''enum'', Value = ''0'', Option = ''''\<rparr>,
    \<lparr>Key = ''disable_bg_progress'', Type = ''bool'', Value = ''false'', Option = ''''\<rparr>,
    \<lparr>Key = ''disable_bg_progress_playback'', Type = ''bool'', Value = ''false'', Option = ''''\<rparr>,
    \<lparr>Key = ''force_use_trakt'', Type = ''bool'', Value = ''false'', Option = ''''\<rparr>,
    \<lparr>Key = ''use_cache_selection'', Type = ''bool'', Value = ''false'', Option = ''''\<rparr>,
    \<lparr>Key = ''use_cache_search'', Type = ''bool'', Value = ''false'', Option = ''''\<rparr>,
    \<lparr>Key = ''cache_search_duration'', Type = ''number'', Value = ''0'', Option = ''''\<rparr>,
    \<lparr>Key = ''results_per_page'', Type = ''number'', Value = ''0'', Option = ''''\<rparr>,
    \<lparr>Key = ''enable_overlay_status'', Type = ''bool'', Value = ''false'', Option = ''''\<rparr>,
    \<lparr>Key = ''silent_stream_start'', Type = ''bool'', Value = ''false'', Option = ''''\<rparr>,
    \<lparr>Key = ''choose_stream_auto'', Type = ''bool'', Value = ''false'', Option = ''''\<rparr>,
    \<lparr>Key = ''force_link_type'', Type = ''bool'', Value = ''false'', Option = ''''\<rparr>,
    \<lparr>Key = ''use_original_title'', Type = ''bool'', Value = ''false'', Option = ''''\<rparr>,
    \<lparr>Key = ''add_specials'', Type = ''bool'', Value = ''false'', Option = ''''\<rparr>,
    \<lparr>Key = ''unaired_seasons'', Type = ''bool'', Value = ''false'', Option = ''''\<rparr>,
    \<lparr>Key = ''unaired_episodes'', Type = ''bool'', Value = ''false'', Option = ''''\<rparr>,
    \<lparr>Key = ''smart_episode_match'', Type = ''bool'', Value = ''false'', Option = ''''\<rparr>,
    \<lparr>Key = ''seed_time_limit'', Type = ''number'', Value = ''0'', Option = ''''\<rparr>,
    \<lparr>Key = ''disable_upload'', Type = ''bool'', Value = ''false'', Option = ''''\<rparr>,
    \<lparr>Key = ''disable_dht'', Type = ''bool'', Value = ''false'', Option = ''''\<rparr>,
    \<lparr>Key = ''disable_tcp'', Type = ''bool'', Value = ''false'', Option = ''''\<rparr>,
    \<lparr>Key = ''disable_utp'', Type = ''bool'', Value = ''false'', Option = ''''\<rparr>,
    \<lparr>Key = ''disable_upnp'', Type = ''bool'', Value = ''false'', Option = ''''\<rparr>,
    \<lparr>Key = ''encryption_policy'', Type = ''enum'', Value = ''0'', Option = ''''\<rparr>,
    \<lparr>Key = ''listen_port_min'', Type = ''number'', Value = ''0'', Option = ''''\<rparr>,
    \<lparr>Key = ''listen_port_max'', Type = ''number'', Value = ''0'', Option = ''''\<rparr>,
    \<lparr>Key = ''listen_interfaces'', Type = ''text'', Value = '''', Option = ''''\<rparr>,
    \<lparr>Key = ''listen_autodetect_ip'', Type = ''bool'', Value = ''false'', Option = ''''\<rparr>,
    \<lparr>Key = ''listen_autodetect_port'', Type = ''bool'', Value = ''false'', Option = ''''\<rparr>,
    \<lparr>Key = ''connections_limit'', Type = ''number'', Value = ''0'', Option = ''''\<rparr>,
    \<lparr>Key = ''trakt_scrobble'', Type = ''bool'', Value = ''false'', Option = ''''\<rparr>,
    \<lparr>Key = ''trakt_username'', Type = ''text'', Value = '''', Option = ''''\<rparr>,
    \<lparr>Key = ''trakt_token'', Type = ''text'', Value = '''', Option = ''''\<rparr>,
    \<lparr>Key = ''trakt_refresh_token'', Type = ''text'', Value = '''', Option = ''''\<rparr>,
    \<lparr>Key = ''trakt_token_expiry'', Type = ''number'', Value = ''0'', Option = ''''\<rparr>,
    \<lparr>Key = ''trakt_sync'', Type = ''number'', Value = ''0'', Option = ''''\<rparr>,
    \<lparr>Key = ''trakt_sync_collections'', Type = ''bool'', Value = ''false'', Option = ''''\<rparr>,
    \<lparr>Key = ''trakt_sync_watchlist'', Type = ''bool'', Value = ''false'', Option = ''''\<rparr>,
    \<lparr>Key = ''trakt_sync_userlists'', Type = ''bool'', Value = ''false'', Option = ''''\<rparr>,
    \<lparr>Key = ''trakt_sync_watched'', Type = ''bool'', Value = ''false'', Option = ''''\<rparr>,
    \<lparr>Key = ''trakt_sync_watchedback'', Type = ''bool'', Value = ''false'', Option = ''''\<rparr>,
    \<lparr>Key = ''library_update_frequency'', Type = ''number'', Value = ''0'', Option = ''''\<rparr>,
    \<lparr>Key = ''library_update_delay'', Type = ''number'', Value = ''0'', Option = ''''\<rparr>,
    \<lparr>Key = ''library_auto_scan'', Type = ''bool'', Value = ''false'', Option = ''''\<rparr>,
    \<lparr>Key = ''play_resume'', Type = ''bool'', Value = ''false'', Option = ''''\<rparr>,
    \<lparr>Key = ''use_cloudhole'', Type = ''bool'', Value = ''false'', Option = ''''\<rparr>,
    \<lparr>Key = ''cloudhole_key'', Type = ''text'', Value = '''', Option = ''''\<rparr>,
    \<lparr>Key = ''tmdb_api_key'', Type = ''text'', Value = '''', Option = ''''\<rparr>,
    \<lparr>Key = ''osdb_user'', Type = ''text'', Value = '''', Option = ''''\<rparr>,
    \<lparr>Key = ''osdb_pass'', Type = ''text'', Value = '''', Option = ''''\<rparr>,
    \<lparr>Key = ''osdb_language'', Type = ''text'', Value = '''', Option = ''''\<rparr>,
    \<lparr>Key = ''osdb_auto_language'', Type = ''bool'', Value = ''false'', Option = ''''\<rparr>,
    \<lparr>Key = ''sorting_mode_movies'', Type = ''number'', Value = ''0'', Option = ''''\<rparr>,
    \<lparr>Key = ''sorting_mode_shows'', Type = ''number'', Value = ''0'', Option = ''''\<rparr>,
    \<lparr>Key = ''resolution_preference_movies'', Type = ''number'', Value = ''0'', Option = ''''\<rparr>,
    \<lparr>Key = ''resolution_preference_shows'', Type = ''number'', Value = ''0'', Option = ''''\<rparr>,
    \<lparr>Key = ''percentage_additional_seeders'', Type = ''number'', Value = ''0'', Option = ''''\<rparr>,
    \<lparr>Key = ''use_public_dns'', Type = ''bool'', Value = ''false'', Option = ''''\<rparr>,
    \<lparr>Key = ''public_dns_list'', Type = ''text'', Value = ''1.1.1.1, 8.8.8.8 ,9.9.9.9'', Option = ''''\<rparr>,
    \<lparr>Key = ''opennic_dns_list'', Type = ''text'', Value = '''', Option = ''''\<rparr>,
    \<lparr>Key = ''custom_provider_timeout_enabled'', Type = ''bool'', Value = ''false'', Option = ''''\<rparr>,
    \<lparr>Key = ''custom_provider_timeout'', Type = ''number'', Value = ''0'', Option = ''''\<rparr>,
    \<lparr>Key = ''proxy_type'', Type = ''enum'', Value = ''1'', Option = ''''\<rparr>,
    \<lparr>Key = ''proxy_enabled'', Type = ''bool'', Value = ''true'', Option = ''''\<rparr>,
    \<lparr>Key = ''proxy_host'', Type = ''text'', Value = ''h'', Option = ''''\<rparr>,
    \<lparr>Key = ''proxy_port'', Type = ''number'', Value = ''1080'', Option = ''''\<rparr>,
    \<lparr>Key = ''proxy_login'', Type = ''text'', Value = '''', Option = ''''\<rparr>,
    \<lparr>Key = ''proxy_password'', Type = ''text'', Value = '''', Option = ''''\<rparr>,
    \<lparr>Key = ''completed_move'', Type = ''bool'', Value = ''true'', Option = ''''\<rparr>,
    \<lparr>Key = ''completed_movies_path'', Type = ''text'', Value = '''', Option = ''''\<rparr>,
    \<lparr>Key = ''completed_shows_path'', Type = ''text'', Value = '''', Option = ''''\<rparr>]"

text \<open>The map of the coerced \<open>example_settings\<close>.\<close>

definition example_map :: "string \<rightharpoonup> setting_value" where
  "example_map = [
    ''download_storage'' \<mapsto> VInt 1,
    ''auto_memory_size'' \<mapsto> VBool True,
    ''auto_memory_size_strategy'' \<mapsto> VInt 1,
    ''memory_size'' \<mapsto> VInt 100,
    ''buffer_size'' \<mapsto> VInt 20,
    ''max_upload_rate'' \<mapsto> VInt 0,
    ''max_download_rate'' \<mapsto> VInt 0,
    ''spoof_user_agent'' \<mapsto> VInt 0,
    ''limit_after_buffering'' \<mapsto> VBool False,
    ''keep_downloading'' \<mapsto> VInt 1,
    ''keep_files_playing'' \<mapsto> VInt 1,
    ''keep_files_finished'' \<mapsto> VInt 0,
    ''disable_bg_progress'' \<mapsto> VBool False,
    ''disable_bg_progress_playback'' \<mapsto> VBool False,
    ''force_use_trakt'' \<mapsto> VBool False,
    ''use_cache_selection'' \<mapsto> VBool False,
    ''use_cache_search'' \<mapsto> VBool False,
    ''cache_search_duration'' \<mapsto> VInt 0,
    ''results_per_page'' \<mapsto> VInt 0,
    ''enable_overlay_status'' \<mapsto> VBool False,
    ''silent_stream_start'' \<mapsto> VBool False,
    ''choose_stream_auto'' \<mapsto> VBool False,
    ''force_link_type'' \<mapsto> VBool False,
    ''use_original_title'' \<mapsto> VBool False,
    ''add_specials'' \<mapsto> VBool False,
    ''unaired_seasons'' \<mapsto> VBool False,
    ''unaired_episodes'' \<mapsto> VBool False,
    ''smart_episode_match'' \<mapsto> VBool False,
    ''seed_time_limit'' \<mapsto> VInt 0,
    ''disable_upload'' \<mapsto> VBool False,
    ''disable_dht'' \<mapsto> VBool False,
    ''disable_tcp'' \<mapsto> VBool False,
    ''disable_utp'' \<mapsto> VBool False,
    ''disable_upnp'' \<mapsto> VBool False,
    ''encryption_policy'' \<mapsto> VInt 0,
    ''listen_port_min'' \<mapsto> VInt 0,
    ''listen_port_max'' \<mapsto> VInt 0,
    ''listen_interfaces'' \<mapsto> VString '''',
    ''listen_autodetect_ip'' \<mapsto> VBool False,
    ''listen_autodetect_port'' \<mapsto> VBool False,
    ''connections_limit'' \<mapsto> VInt 0,
    ''trakt_scrobble'' \<mapsto> VBool False,
    ''trakt_username'' \<mapsto> VString '''',
    ''trakt_token'' \<mapsto> VString '''',
    ''trakt_refresh_token'' \<mapsto> VString '''',
    ''trakt_token_expiry'' \<mapsto> VInt 0,
    ''trakt_sync'' \<mapsto> VInt 0,
    ''trakt_sync_collections'' \<mapsto> VBool False,
    ''trakt_sync_watchlist'' \<mapsto> VBool False,
    ''trakt_sync_userlists'' \<mapsto> VBool False,
    ''trakt_sync_watched'' \<mapsto> VBool False,
    ''trakt_sync_watchedback'' \<mapsto> VBool False,
    ''library_update_frequency'' \<mapsto> VInt 0,
    ''library_update_delay'' \<mapsto> VInt 0,
    ''library_auto_scan'' \<mapsto> VBool False,
    ''play_resume'' \<mapsto> VBool False,
    ''use_cloudhole'' \<mapsto> VBool False,
    ''cloudhole_key'' \<mapsto> VString '''',
    ''tmdb_api_key'' \<mapsto> VString '''',
    ''osdb_user'' \<mapsto> VString '''',
    ''osdb_pass'' \<mapsto> VString '''',
    ''osdb_language'' \<mapsto> VString '''',
    ''osdb_auto_language'' \<mapsto> VBool False,
    ''sorting_mode_movies'' \<mapsto> VInt 0,
    ''sorting_mode_shows'' \<mapsto> VInt 0,
    ''resolution_preference_movies'' \<mapsto> VInt 0,
    ''resolution_preference_shows'' \<mapsto> VInt 0,
    ''percentage_additional_seeders'' \<mapsto> VInt 0,
    ''use_public_dns'' \<mapsto> VBool False,
    ''public_dns_list'' \<mapsto> VString ''1.1.1.1, 8.8.8.8 ,9.9.9.9'',
    ''opennic_dns_list'' \<mapsto> VString '''',
    ''custom_provider_timeout_enabled'' \<mapsto> VBool False,
    ''custom_provider_timeout'' \<mapsto> VInt 0,
    ''proxy_type'' \<mapsto> VInt 1,
    ''proxy_enabled'' \<mapsto> VBool True,
    ''proxy_host'' \<mapsto> VString ''h'',
    ''proxy_port'' \<mapsto> VInt 1080,
    ''proxy_login'' \<mapsto> VString '''',
    ''proxy_password'' \<mapsto> VString '''',
    ''completed_move'' \<mapsto> VBool True,
    ''completed_movies_path'' \<mapsto> VString '''',
    ''completed_shows_path'' \<mapsto> VString '''']"

definition parse_float_example :: "string \<Rightarrow> float32" where
  "parse_float_example s =
     (if s = ''100'' then Finite 100
      else if s = ''300'' then Finite 300
      else if s = ''20'' then Finite 20
      else if s = ''42.0'' then Finite 42
      else if s = ''42.75'' then Finite 42.75
      else if s = ''-42.75'' then Finite (- 42.75)
      else if s = ''0.5'' then Finite 0.5
      else Finite 0)"

definition dir_example :: "string \<Rightarrow> string" where
  "dir_example p =
     (if p = ''/d/'' then ''/d''
      else if p = ''/d/f/'' then ''/d/f''
      else if p = ''/e/'' then ''/e''
      else ''.'')"

definition example_host :: "string \<Rightarrow> string \<Rightarrow> Setting list \<Rightarrow> 64 word \<Rightarrow> host" where
  "example_host dl lib extra mem_total =
     \<lparr>info = \<lparr>ID = ''plugin.video.elementum'', Path = ''/addon'', Profile = ''/profile'',
              Home = ''/home'', Xbmc = ''/xbmc'', TempPath = ''/temp/elementum'',
              Icon = ''/addon/icon.png''\<rparr>,
      platform = \<lparr>OS = ''linux''\<rparr>,
      GetSettingString =
        (\<lambda>k. if k = ''download_path'' then dl else if k = ''library_path'' then lib else ''''),
      GetAllSettings = example_settings @ extra,
      GetLanguageISO639_1 = ''en'',
      xbmc_TranslatePath = (\<lambda>p. p),
      filepath_Dir = dir_example,
      filepath_Join = join_slash,
      ParseFloat = parse_float_example,
      int_of_unrepresentable = (\<lambda>f. 0),
      TotalMemory = mem_total\<rparr>"

definition state0 :: state where
  "state0 = \<lparr>settingsWarning = '''',
             ResolverPublic = New [''8.8.8.8'', ''8.8.4.4'', ''9.9.9.9''],
             ResolverOpennic = New [''193.183.98.66'', ''172.104.136.243'', ''89.18.27.167''],
             files = fs_plain\<rparr>"

text \<open>The hosts of the examples: what differs from \<open>example_settings\<close>, the paths and
  the memory of the system.\<close>

definition host_socks5 :: host where
  "host_socks5 = example_host ''/d/'' '''' [] 2147483648"

definition host_http :: host where
  "host_http = example_host ''/d/'' '''' [
     \<lparr>Key = ''proxy_type'', Type = ''enum'', Value = ''2'', Option = ''''\<rparr>,
     \<lparr>Key = ''proxy_port'', Type = ''number'', Value = ''80'', Option = ''''\<rparr>,
     \<lparr>Key = ''proxy_login'', Type = ''text'', Value = ''u'', Option = ''''\<rparr>,
     \<lparr>Key = ''proxy_password'', Type = ''text'', Value = ''p'', Option = ''''\<rparr>] 2147483648"

definition host_proxy7 :: host where
  "host_proxy7 = example_host ''/d/'' '''' [
     \<lparr>Key = ''proxy_type'', Type = ''enum'', Value = ''7'', Option = ''''\<rparr>] 2147483648"

definition host_strategy0 :: host where
  "host_strategy0 = example_host ''/d/'' '''' [
     \<lparr>Key = ''auto_memory_size_strategy'', Type = ''enum'', Value = ''0'', Option = ''''\<rparr>]
     2147483648"

definition host_nomem :: host where
  "host_nomem = example_host ''/d/'' '''' [] 0"

definition host_nomem300 :: host where
  "host_nomem300 = example_host ''/d/'' '''' [
     \<lparr>Key = ''memory_size'', Type = ''slider'', Value = ''300'', Option = ''int''\<rparr>] 0"

definition host_tab :: host where
  "host_tab = example_host ''/d/'' '''' [
     \<lparr>Key = ''public_dns_list'', Type = ''text'',
      Value = ''1.1.1.1,'' @ [CHR 0x09] @ ''8.8.8.8'', Option = ''''\<rparr>,
     \<lparr>Key = ''opennic_dns_list'', Type = ''text'', Value = ''  '', Option = ''''\<rparr>] 2147483648"

definition host_nosettings :: host where
  "host_nosettings = (example_host ''/d/'' '''' [] 2147483648)\<lparr>GetAllSettings := []\<rparr>"

definition host_unset :: host where
  "host_unset = example_host '''' '''' [] 2147483648"

definition host_missing :: host where
  "host_missing = example_host ''/e/'' '''' [] 2147483648"

definition host_library_file :: host where
  "host_library_file = example_host ''/d/'' ''/d/f/'' [] 2147483648"

definition host_8g :: host where
  "host_8g = example_host ''/d/'' '''' [] 8589934592"

definition host_badnumber :: host where
  "host_badnumber = example_host ''/d/'' '''' [
     \<lparr>Key = ''encryption_policy'', Type = ''enum'', Value = ''abc'', Option = ''''\<rparr>]
     2147483648"

section \<open>Theorems\<close>

subsection \<open>IsWritablePath\<close>

lemma IsWritablePath_fs_plain:
  "IsWritablePath join_slash fs_plain ''/d'' = (None, fs_plain)"
  by (simp add: IsWritablePath_def Let_def HasPrefix_def os_Stat_def os_Create_def os_Remove_def
      join_slash_def fs_plain_def)

text \<open>
  Claim C8, as the code has it. \<open>IsWritablePath\<close> fails with the error \<open>Path not set\<close> at
  the unset path \<open>.\<close>; with the network-path error at a path that starts with \<open>nfs\<close> or
  \<open>smb\<close>; otherwise with the error of \<open>os.Stat\<close> when it fails, with the not-a-directory
  error when the target is not a directory, and with the error of \<open>os.Create\<close> when the
  marker cannot be created; every failure leaves the file system as it was. Otherwise it
  returns no error, and when the removal of the marker succeeds the marker is gone and
  every other path is as before. (The error of the removal is not looked at.)
\<close>

theorem IsWritablePath_outcomes:
  "(path = ''.'' \<longrightarrow>
      IsWritablePath Join fs path = (Some (ErrorString ''Path not set''), fs))
   \<and> (path \<noteq> ''.'' \<and> (HasPrefix path ''nfs'' \<or> HasPrefix path ''smb'') \<longrightarrow>
      IsWritablePath Join fs path =
        (Some (ErrorString (''Network paths are not supported, change '' @ path @
                            '' to a locally mounted path by the OS'')), fs))
   \<and> (path \<noteq> ''.'' \<and> \<not> HasPrefix path ''nfs'' \<and> \<not> HasPrefix path ''smb'' \<longrightarrow>
       (\<forall>e. os_Stat fs path = Inl e \<longrightarrow> IsWritablePath Join fs path = (Some e, fs))
     \<and> (os_Stat fs path = Inr File \<longrightarrow>
          IsWritablePath Join fs path =
            (Some (ErrorString (path @ '' is not a valid directory'')), fs))
     \<and> (os_Stat fs path = Inr Dir \<longrightarrow>
          (\<forall>e. os_Create fs (Join path ''.writable'') = Inl e \<longrightarrow>
               IsWritablePath Join fs path = (Some e, fs))
        \<and> (\<forall>fs1. os_Create fs (Join path ''.writable'') = Inr fs1 \<longrightarrow>
               fst (IsWritablePath Join fs path) = None
             \<and> (fst (os_Remove fs1 (Join path ''.writable'')) = None \<longrightarrow>
                  nodes (snd (IsWritablePath Join fs path)) (Join path ''.writable'') = None
                \<and> (\<forall>q. q \<noteq> Join path ''.writable'' \<longrightarrow>
                       nodes (snd (IsWritablePath Join fs path)) q = nodes fs q)))))"
  by (auto simp: IsWritablePath_def Let_def os_Create_def os_Remove_def
      split: sum.splits option.splits node.splits if_splits)

theorem IsWritablePath_outcomes_witness:
  "IsWritablePath join_slash fs_plain ''.'' = (Some (ErrorString ''Path not set''), fs_plain)
   \<and> IsWritablePath join_slash fs_plain ''smb://nas/films'' =
       (Some (ErrorString ''Network paths are not supported, change smb://nas/films to a locally mounted path by the OS''),
        fs_plain)
   \<and> IsWritablePath join_slash fs_plain ''/e'' =
       (Some (PathError ''stat'' ''/e'' ''no such file or directory''), fs_plain)
   \<and> IsWritablePath join_slash fs_plain ''/d/f'' =
       (Some (ErrorString ''/d/f is not a valid directory''), fs_plain)
   \<and> IsWritablePath join_slash fs_readonly ''/d'' =
       (Some (PathError ''open'' ''/d/.writable'' ''permission denied''), fs_readonly)
   \<and> fst (IsWritablePath join_slash fs_plain ''/d'') = None
   \<and> nodes (snd (IsWritablePath join_slash fs_plain ''/d'')) ''/d/.writable'' = None
   \<and> nodes (snd (IsWritablePath join_slash fs_plain ''/d'')) ''/d/f'' = Some File"
  using IsWritablePath_outcomes [of "''.''" join_slash fs_plain]
    IsWritablePath_outcomes [of "''smb://nas/films''" join_slash fs_plain]
    IsWritablePath_outcomes [of "''/e''" join_slash fs_plain]
    IsWritablePath_outcomes [of "''/d/f''" join_slash fs_plain]
    IsWritablePath_outcomes [of "''/d''" join_slash fs_readonly]
    IsWritablePath_outcomes [of "''/d''" join_slash fs_plain]
  by (simp add: Let_def HasPrefix_def os_Stat_def os_Create_def os_Remove_def join_slash_def
      fs_plain_def fs_readonly_def)

text \<open>
  Claim C8 as stated fails where the marker is created and its removal is refused: the
  function still returns no error, and the marker stays in the directory.
\<close>

theorem IsWritablePath_residue_counterexample:
  "fst (IsWritablePath join_slash fs_keep ''/d'') = None
   \<and> nodes fs_keep ''/d/.writable'' = None
   \<and> nodes (snd (IsWritablePath join_slash fs_keep ''/d'')) ''/d/.writable'' = Some File"
  by (simp add: IsWritablePath_def Let_def HasPrefix_def os_Stat_def os_Create_def os_Remove_def
      join_slash_def fs_plain_def fs_keep_def)


subsection \<open>The type assertions of the literal\<close>

lemma assert_int_if:
  "assert_int x = (if has_type TInt x then Some (the_int x) else None)"
  by (simp add: assert_int_def has_type_def the_int_def split: option.splits setting_value.splits)

lemma assert_bool_if:
  "assert_bool x = (if has_type TBool x then Some (the_bool x) else None)"
  by (simp add: assert_bool_def has_type_def the_bool_def split: option.splits setting_value.splits)

lemma assert_string_if:
  "assert_string x = (if has_type TString x then Some (the_string x) else None)"
  by (simp add: assert_string_def has_type_def the_string_def
      split: option.splits setting_value.splits)

lemma bind_option_if: "Option.bind (if b then Some x else None) f = (if b then f x else None)"
  by simp

lemma if_if_conj: "(if b then (if c then x else y) else y) = (if b \<and> c then x else y)"
  by simp

text \<open>The literal panics exactly when some key is missing or has another type than the
  asserted one; otherwise it is the record of the values in the map.\<close>

lemma newConfig_if:
  "newConfig h downloadPath libraryPath settings =
     (if well_typed settings then Some (config_literal h downloadPath libraryPath settings)
      else None)"
  unfolding newConfig_def well_typed_def asserted_def config_literal_def
  by (simp only: assert_int_if assert_bool_if assert_string_if bind_option_if if_if_conj
      list.pred_inject prod.case simp_thms)

lemma well_typed_has_type:
  "well_typed settings \<Longrightarrow> (k, t) \<in> set asserted \<Longrightarrow> has_type t (settings k)"
  by (auto simp: well_typed_def list_all_iff)

lemma has_type_TInt: "has_type TInt x \<Longrightarrow> x = Some (VInt (the_int x))"
  by (auto simp: has_type_def the_int_def split: option.splits setting_value.splits)

lemma has_type_TBool: "has_type TBool x \<Longrightarrow> x = Some (VBool (the_bool x))"
  by (auto simp: has_type_def the_bool_def split: option.splits setting_value.splits)

lemma has_type_TString: "has_type TString x \<Longrightarrow> x = Some (VString (the_string x))"
  by (auto simp: has_type_def the_string_def split: option.splits setting_value.splits)

subsection \<open>The fields of the literal and what the later steps do to them\<close>

lemma config_literal_fields:
  "DownloadPath (config_literal h dl lib S) = dl"
  "LibraryPath (config_literal h dl lib S) = lib"
  "DownloadStorage (config_literal h dl lib S) = the_int (S ''download_storage'')"
  "AutoMemorySize (config_literal h dl lib S) = the_bool (S ''auto_memory_size'')"
  "AutoMemorySizeStrategy (config_literal h dl lib S) = the_int (S ''auto_memory_size_strategy'')"
  "MemorySize (config_literal h dl lib S) = the_int (S ''memory_size'') * 1024 * 1024"
  "CompletedMove (config_literal h dl lib S) = the_bool (S ''completed_move'')"
  "KeepDownloading (config_literal h dl lib S) = the_int (S ''keep_downloading'')"
  "KeepFilesFinished (config_literal h dl lib S) = the_int (S ''keep_files_finished'')"
  "KeepFilesPlaying (config_literal h dl lib S) = the_int (S ''keep_files_playing'')"
  "ProxyURL (config_literal h dl lib S) = []"
  "ProxyType (config_literal h dl lib S) = the_int (S ''proxy_type'')"
  "ProxyEnabled (config_literal h dl lib S) = the_bool (S ''proxy_enabled'')"
  "ProxyHost (config_literal h dl lib S) = the_string (S ''proxy_host'')"
  "ProxyPort (config_literal h dl lib S) = the_int (S ''proxy_port'')"
  "ProxyLogin (config_literal h dl lib S) = the_string (S ''proxy_login'')"
  "ProxyPassword (config_literal h dl lib S) = the_string (S ''proxy_password'')"
  "PublicDNSList (config_literal h dl lib S) = the_string (S ''public_dns_list'')"
  "OpennicDNSList (config_literal h dl lib S) = the_string (S ''opennic_dns_list'')"
  by (simp_all add: config_literal_def)

lemma memory_storage_fields:
  "DownloadPath (memory_storage h c) = DownloadPath c"
  "LibraryPath (memory_storage h c) = LibraryPath c"
  "DownloadStorage (memory_storage h c) = DownloadStorage c"
  "AutoMemorySize (memory_storage h c) = AutoMemorySize c"
  "AutoMemorySizeStrategy (memory_storage h c) = AutoMemorySizeStrategy c"
  "ProxyURL (memory_storage h c) = ProxyURL c"
  "ProxyType (memory_storage h c) = ProxyType c"
  "ProxyEnabled (memory_storage h c) = ProxyEnabled c"
  "ProxyHost (memory_storage h c) = ProxyHost c"
  "ProxyPort (memory_storage h c) = ProxyPort c"
  "ProxyLogin (memory_storage h c) = ProxyLogin c"
  "ProxyPassword (memory_storage h c) = ProxyPassword c"
  "PublicDNSList (memory_storage h c) = PublicDNSList c"
  "OpennicDNSList (memory_storage h c) = OpennicDNSList c"
  by (simp_all add: memory_storage_def Let_def)

lemma trakt_frequency_fields:
  "DownloadPath (trakt_frequency c) = DownloadPath c"
  "LibraryPath (trakt_frequency c) = LibraryPath c"
  "DownloadStorage (trakt_frequency c) = DownloadStorage c"
  "AutoMemorySize (trakt_frequency c) = AutoMemorySize c"
  "AutoMemorySizeStrategy (trakt_frequency c) = AutoMemorySizeStrategy c"
  "MemorySize (trakt_frequency c) = MemorySize c"
  "CompletedMove (trakt_frequency c) = CompletedMove c"
  "KeepDownloading (trakt_frequency c) = KeepDownloading c"
  "KeepFilesFinished (trakt_frequency c) = KeepFilesFinished c"
  "KeepFilesPlaying (trakt_frequency c) = KeepFilesPlaying c"
  "ProxyURL (trakt_frequency c) = ProxyURL c"
  "ProxyType (trakt_frequency c) = ProxyType c"
  "ProxyEnabled (trakt_frequency c) = ProxyEnabled c"
  "ProxyHost (trakt_frequency c) = ProxyHost c"
  "ProxyPort (trakt_frequency c) = ProxyPort c"
  "ProxyLogin (trakt_frequency c) = ProxyLogin c"
  "ProxyPassword (trakt_frequency c) = ProxyPassword c"
  "PublicDNSList (trakt_frequency c) = PublicDNSList c"
  "OpennicDNSList (trakt_frequency c) = OpennicDNSList c"
  by (simp_all add: trakt_frequency_def)

lemma osdb_language_fields:
  "DownloadPath (osdb_language c) = DownloadPath c"
  "LibraryPath (osdb_language c) = LibraryPath c"
  "DownloadStorage (osdb_language c) = DownloadStorage c"
  "AutoMemorySize (osdb_language c) = AutoMemorySize c"
  "AutoMemorySizeStrategy (osdb_language c) = AutoMemorySizeStrategy c"
  "MemorySize (osdb_language c) = MemorySize c"
  "CompletedMove (osdb_language c) = CompletedMove c"
  "KeepDownloading (osdb_language c) = KeepDownloading c"
  "KeepFilesFinished (osdb_language c) = KeepFilesFinished c"
  "KeepFilesPlaying (osdb_language c) = KeepFilesPlaying c"
  "ProxyURL (osdb_language c) = ProxyURL c"
  "ProxyType (osdb_language c) = ProxyType c"
  "ProxyEnabled (osdb_language c) = ProxyEnabled c"
  "ProxyHost (osdb_language c) = ProxyHost c"
  "ProxyPort (osdb_language c) = ProxyPort c"
  "ProxyLogin (osdb_language c) = ProxyLogin c"
  "ProxyPassword (osdb_language c) = ProxyPassword c"
  "PublicDNSList (osdb_language c) = PublicDNSList c"
  "OpennicDNSList (osdb_language c) = OpennicDNSList c"
  by (simp_all add: osdb_language_def)

lemma connections_limit_fields:
  "DownloadPath (connections_limit c) = DownloadPath c"
  "LibraryPath (connections_limit c) = LibraryPath c"
  "DownloadStorage (connections_limit c) = DownloadStorage c"
  "AutoMemorySize (connections_limit c) = AutoMemorySize c"
  "AutoMemorySizeStrategy (connections_limit c) = AutoMemorySizeStrategy c"
  "MemorySize (connections_limit c) = MemorySize c"
  "CompletedMove (connections_limit c) = CompletedMove c"
  "KeepDownloading (connections_limit c) = KeepDownloading c"
  "KeepFilesFinished (connections_limit c) = KeepFilesFinished c"
  "KeepFilesPlaying (connections_limit c) = KeepFilesPlaying c"
  "ProxyURL (connections_limit c) = ProxyURL c"
  "ProxyType (connections_limit c) = ProxyType c"
  "ProxyEnabled (connections_limit c) = ProxyEnabled c"
  "ProxyHost (connections_limit c) = ProxyHost c"
  "ProxyPort (connections_limit c) = ProxyPort c"
  "ProxyLogin (connections_limit c) = ProxyLogin c"
  "ProxyPassword (connections_limit c) = ProxyPassword c"
  "PublicDNSList (connections_limit c) = PublicDNSList c"
  "OpennicDNSList (connections_limit c) = OpennicDNSList c"
  by (simp_all add: connections_limit_def)

lemma reload_resolvers_fields:
  "DownloadPath (fst (reload_resolvers c st)) = DownloadPath c"
  "LibraryPath (fst (reload_resolvers c st)) = LibraryPath c"
  "DownloadStorage (fst (reload_resolvers c st)) = DownloadStorage c"
  "AutoMemorySize (fst (reload_resolvers c st)) = AutoMemorySize c"
  "AutoMemorySizeStrategy (fst (reload_resolvers c st)) = AutoMemorySizeStrategy c"
  "MemorySize (fst (reload_resolvers c st)) = MemorySize c"
  "CompletedMove (fst (reload_resolvers c st)) = CompletedMove c"
  "KeepDownloading (fst (reload_resolvers c st)) = KeepDownloading c"
  "KeepFilesFinished (fst (reload_resolvers c st)) = KeepFilesFinished c"
  "KeepFilesPlaying (fst (reload_resolvers c st)) = KeepFilesPlaying c"
  "ProxyURL (fst (reload_resolvers c st)) = ProxyURL c"
  "ProxyType (fst (reload_resolvers c st)) = ProxyType c"
  "ProxyEnabled (fst (reload_resolvers c st)) = ProxyEnabled c"
  "ProxyHost (fst (reload_resolvers c st)) = ProxyHost c"
  "ProxyPort (fst (reload_resolvers c st)) = ProxyPort c"
  "ProxyLogin (fst (reload_resolvers c st)) = ProxyLogin c"
  "ProxyPassword (fst (reload_resolvers c st)) = ProxyPassword c"
  "PublicDNSList (fst (reload_resolvers c st)) = Replace_spaces (PublicDNSList c)"
  "OpennicDNSList (fst (reload_resolvers c st)) = Replace_spaces (OpennicDNSList c)"
  by (simp_all add: reload_resolvers_def Let_def)

lemma reload_resolvers_state:
  "ResolverPublic (snd (reload_resolvers c st)) =
     (if Replace_spaces (PublicDNSList c) \<noteq> []
      then New (Split_comma (Replace_spaces (PublicDNSList c))) else ResolverPublic st)"
  "ResolverOpennic (snd (reload_resolvers c st)) =
     (if Replace_spaces (OpennicDNSList c) \<noteq> []
      then New (Split_comma (Replace_spaces (OpennicDNSList c))) else ResolverOpennic st)"
  "settingsWarning (snd (reload_resolvers c st)) = settingsWarning st"
  "files (snd (reload_resolvers c st)) = files st"
  by (simp_all add: reload_resolvers_def Let_def)

lemma proxy_settings_fields:
  assumes "proxy_settings c = Inr c'"
  shows "DownloadPath c' = DownloadPath c"
    and "LibraryPath c' = LibraryPath c"
    and "DownloadStorage c' = DownloadStorage c"
    and "AutoMemorySize c' = AutoMemorySize c"
    and "AutoMemorySizeStrategy c' = AutoMemorySizeStrategy c"
    and "MemorySize c' = MemorySize c"
    and "CompletedMove c' = CompletedMove c"
    and "KeepDownloading c' = KeepDownloading c"
    and "KeepFilesFinished c' = KeepFilesFinished c"
    and "KeepFilesPlaying c' = KeepFilesPlaying c"
    and "ProxyType c' = ProxyType c"
    and "ProxyEnabled c' = ProxyEnabled c"
    and "ProxyHost c' = ProxyHost c"
    and "ProxyPort c' = ProxyPort c"
    and "ProxyLogin c' = ProxyLogin c"
    and "ProxyPassword c' = ProxyPassword c"
    and "PublicDNSList c' = PublicDNSList c"
    and "OpennicDNSList c' = OpennicDNSList c"
  using assms
  by (auto simp: proxy_settings_def bind_panic_def Let_def split: if_splits sum.splits)

lemma proxy_settings_cases:
  "proxy_settings c =
     (if ProxyEnabled c \<and> ProxyHost c \<noteq> [] then
        (if 0 \<le> sint (ProxyType c) \<and> sint (ProxyType c) < 4 then
           Inr (c\<lparr>ProxyURL :=
                  proxyTypes ! nat (sint (ProxyType c)) @ ''://'' @
                  (if ProxyLogin c \<noteq> [] \<or> ProxyPassword c \<noteq> []
                   then ProxyLogin c @ '':'' @ ProxyPassword c @ ''@'' else []) @
                  ProxyHost c @ '':'' @ Itoa (ProxyPort c)\<rparr>)
         else Inl IndexOutOfRange)
      else Inr c)"
  by (simp add: proxy_settings_def index_proxyTypes_def bind_panic_def Let_def proxyTypes_def)


subsection \<open>The shape of a run of Reload\<close>

lemma Reload_body_valid:
  assumes "validate_paths h st = (Inr (dl, lib), st1)"
  shows "Reload_body h st =
     (if well_typed (settings_map h) then
        (case proxy_settings (osdb_language (trakt_frequency (memory_storage h
                (config_literal h dl lib (settings_map h))))) of
           Inl p \<Rightarrow> (Inl p, st1)
         | Inr c1 \<Rightarrow> (Inr (connections_limit (fst (reload_resolvers c1 st1))),
                      snd (reload_resolvers c1 st1)))
      else (Inl TypeAssertionError, st1))"
  using assms
  by (simp add: Reload_body_def newConfig_if Let_def split: sum.splits prod.splits)

lemma Reload_body_invalid:
  "validate_paths h st = (Inl p, st1) \<Longrightarrow> Reload_body h st = (Inl p, st1)"
  by (simp add: Reload_body_def)

lemma Reload_publishes:
  assumes "validate_paths h st = (Inr (dl, lib), st1)"
    and "well_typed (settings_map h)"
    and "proxy_settings (osdb_language (trakt_frequency (memory_storage h
            (config_literal h dl lib (settings_map h))))) = Inr c1"
  shows "Reload h st = (Published (connections_limit (fst (reload_resolvers c1 st1))),
                        snd (reload_resolvers c1 st1))"
  using assms by (simp add: Reload_def Reload_body_valid)

lemma Reload_PublishedD:
  assumes "Reload h st = (Published c, st')"
  obtains dl lib st1 c1 where
    "validate_paths h st = (Inr (dl, lib), st1)"
    "well_typed (settings_map h)"
    "proxy_settings (osdb_language (trakt_frequency (memory_storage h
        (config_literal h dl lib (settings_map h))))) = Inr c1"
    "c = connections_limit (fst (reload_resolvers c1 st1))"
    "st' = snd (reload_resolvers c1 st1)"
proof (cases "validate_paths h st")
  case (Pair r st1)
  show ?thesis
  proof (cases r)
    case (Inl p)
    with Pair assms show ?thesis
      by (simp add: Reload_def Reload_body_invalid Let_def)
  next
    case (Inr paths)
    obtain dl lib where paths: "paths = (dl, lib)" by (cases paths)
    from Pair Inr paths have v: "validate_paths h st = (Inr (dl, lib), st1)" by simp
    from assms v that show ?thesis
      by (simp add: Reload_def Reload_body_valid Let_def split: if_splits sum.splits)
  qed
qed

lemma validate_paths_settingsWarning:
  "validate_paths h st = (Inr paths, st1) \<Longrightarrow> settingsWarning st1 = settingsWarning st"
  by (auto simp: validate_paths_def Let_def split: if_splits prod.splits option.splits)

text \<open>An abort after the paths have been validated shows the general message.\<close>

lemma Reload_aborts_late:
  assumes "validate_paths h st = (Inr (dl, lib), st1)"
    and "fst (Reload_body h st) = Inl p"
  shows "Reload h st =
           (Aborted (if settingsWarning st \<noteq> [] then settingsWarning st else ''LOCALIZE[30314]''),
            st1)"
  using assms validate_paths_settingsWarning [OF assms(1)]
  by (simp add: Reload_def Reload_body_valid Let_def split: if_splits sum.splits)


subsection \<open>The example hosts\<close>

lemma Atoi_examples:
  "Atoi ''0'' = (0, None)" "Atoi ''1'' = (1, None)" "Atoi ''2'' = (2, None)"
  "Atoi ''7'' = (7, None)" "Atoi ''80'' = (80, None)" "Atoi ''1080'' = (1080, None)"
  by (simp_all add: Atoi_def ParseInt_def ParseUint_def is_digit_def digit_value_def Let_def)

lemma coerce_all_append:
  "coerce_all h (xs @ ys) m = coerce_all h ys (coerce_all h xs m)"
  by (induction xs arbitrary: m) simp_all

lemma coerce_all_example_settings:
  "ParseFloat h = parse_float_example \<Longrightarrow> coerce_all h example_settings Map.empty = example_map"
  unfolding example_settings_def example_map_def
  by (simp add: coerce_def Atoi_examples int_of_float_def parse_float_example_def
      truncate_real_def float_positive_def Let_def)

lemma settings_map_example_host:
  "settings_map (example_host dl lib extra mem) =
     coerce_all (example_host dl lib extra mem) extra example_map"
proof -
  have "ParseFloat (example_host dl lib extra mem) = parse_float_example"
    by (simp add: example_host_def)
  then show ?thesis
    by (simp add: settings_map_def coerce_all_append coerce_all_example_settings
        example_host_def [where extra = extra])
qed

lemma well_typed_example_map: "well_typed example_map"
  by code_simp

lemma has_type_unique: "has_type t x \<Longrightarrow> has_type t' x \<Longrightarrow> t = t'"
  by (auto simp: has_type_def split: option.splits setting_value.splits)

lemma well_typed_upd:
  assumes "well_typed m" and "has_type t (m k)" and "has_type t (Some v)"
  shows "well_typed (m(k \<mapsto> v))"
  unfolding well_typed_def list_all_iff
proof (intro ballI, clarify)
  fix k' t' assume mem: "(k', t') \<in> set asserted"
  from assms(1) mem have h: "has_type t' (m k')" by (rule well_typed_has_type)
  show "has_type t' ((m(k \<mapsto> v)) k')"
  proof (cases "k' = k")
    case True
    with h assms(2) have "t' = t" by (auto dest: has_type_unique)
    with True assms(3) show ?thesis by simp
  next
    case False
    with h show ?thesis by simp
  qed
qed

lemma example_map_lookup:
  "example_map ''download_storage'' = Some (VInt 1)"
  "example_map ''auto_memory_size'' = Some (VBool True)"
  "example_map ''auto_memory_size_strategy'' = Some (VInt 1)"
  "example_map ''memory_size'' = Some (VInt 100)"
  "example_map ''completed_move'' = Some (VBool True)"
  "example_map ''keep_downloading'' = Some (VInt 1)"
  "example_map ''keep_files_finished'' = Some (VInt 0)"
  "example_map ''keep_files_playing'' = Some (VInt 1)"
  "example_map ''proxy_type'' = Some (VInt 1)"
  "example_map ''proxy_enabled'' = Some (VBool True)"
  "example_map ''proxy_host'' = Some (VString ''h'')"
  "example_map ''proxy_port'' = Some (VInt 1080)"
  "example_map ''proxy_login'' = Some (VString [])"
  "example_map ''proxy_password'' = Some (VString [])"
  "example_map ''public_dns_list'' = Some (VString ''1.1.1.1, 8.8.8.8 ,9.9.9.9'')"
  "example_map ''opennic_dns_list'' = Some (VString [])"
  by code_simp+

lemma the_simps:
  "the_int (Some (VInt i)) = i" "the_bool (Some (VBool b)) = b" "the_string (Some (VString s)) = s"
  "has_type TInt (Some (VInt i))" "has_type TBool (Some (VBool b))"
  "has_type TString (Some (VString s))"
  by (simp_all add: the_int_def the_bool_def the_string_def has_type_def)

lemma validate_paths_example:
  "validate_paths (example_host ''/d/'' '''' extra mem) state0 = (Inr (''/d'', ''/d''), state0)"
  by (simp add: validate_paths_def TranslatePath_def example_host_def dir_example_def Let_def
      state0_def IsWritablePath_fs_plain)


subsection \<open>The published Configuration in terms of the settings\<close>

lemma memory_storage_flags:
  "CompletedMove (memory_storage h c) = (if DownloadStorage c = 1 then False else CompletedMove c)"
  "KeepDownloading (memory_storage h c) = (if DownloadStorage c = 1 then 2 else KeepDownloading c)"
  "KeepFilesFinished (memory_storage h c) =
     (if DownloadStorage c = 1 then 2 else KeepFilesFinished c)"
  "KeepFilesPlaying (memory_storage h c) = (if DownloadStorage c = 1 then 2 else KeepFilesPlaying c)"
  by (simp_all add: memory_storage_def Let_def)

lemma memory_storage_MemorySize:
  "MemorySize (memory_storage h c) =
     (if DownloadStorage c = 1 \<and> AutoMemorySize c then
        (if AutoMemorySizeStrategy c = 0 then 40 * 1024 * 1024
         else
           (let mem = TotalMemory h div 100 * (5 + (5 * (AutoMemorySizeStrategy c - 1)));
                m1 = (if 0 < mem then mem else MemorySize c)
            in if maxMemorySize <s m1 then maxMemorySize else m1))
      else MemorySize c)"
  by (simp add: memory_storage_def Let_def)

lemma validate_paths_resolvers:
  "validate_paths h st = (r, st1) \<Longrightarrow>
     ResolverPublic st1 = ResolverPublic st \<and> ResolverOpennic st1 = ResolverOpennic st"
  by (auto simp: validate_paths_def Let_def split: if_splits prod.splits option.splits)

lemma Reload_Published_fields:
  assumes "Reload h st = (Published c, st')"
  shows "DownloadStorage c = the_int (settings_map h ''download_storage'')"
    and "AutoMemorySize c = the_bool (settings_map h ''auto_memory_size'')"
    and "AutoMemorySizeStrategy c = the_int (settings_map h ''auto_memory_size_strategy'')"
    and "ProxyType c = the_int (settings_map h ''proxy_type'')"
    and "ProxyEnabled c = the_bool (settings_map h ''proxy_enabled'')"
    and "ProxyHost c = the_string (settings_map h ''proxy_host'')"
    and "ProxyPort c = the_int (settings_map h ''proxy_port'')"
    and "ProxyLogin c = the_string (settings_map h ''proxy_login'')"
    and "ProxyPassword c = the_string (settings_map h ''proxy_password'')"
    and "PublicDNSList c = Replace_spaces (the_string (settings_map h ''public_dns_list''))"
    and "OpennicDNSList c = Replace_spaces (the_string (settings_map h ''opennic_dns_list''))"
    and "CompletedMove c =
           (if DownloadStorage c = 1 then False else the_bool (settings_map h ''completed_move''))"
    and "KeepDownloading c =
           (if DownloadStorage c = 1 then 2 else the_int (settings_map h ''keep_downloading''))"
    and "KeepFilesFinished c =
           (if DownloadStorage c = 1 then 2 else the_int (settings_map h ''keep_files_finished''))"
    and "KeepFilesPlaying c =
           (if DownloadStorage c = 1 then 2 else the_int (settings_map h ''keep_files_playing''))"
    and "MemorySize c =
           (if DownloadStorage c = 1 \<and> AutoMemorySize c then
              (if AutoMemorySizeStrategy c = 0 then 40 * 1024 * 1024
               else
                 (let mem = TotalMemory h div 100 * (5 + (5 * (AutoMemorySizeStrategy c - 1)));
                      m1 = (if 0 < mem then mem
                            else the_int (settings_map h ''memory_size'') * 1024 * 1024)
                  in if maxMemorySize <s m1 then maxMemorySize else m1))
            else the_int (settings_map h ''memory_size'') * 1024 * 1024)"
    and "ProxyEnabled c \<and> ProxyHost c \<noteq> [] \<longrightarrow>
           0 \<le> sint (ProxyType c) \<and> sint (ProxyType c) < 4"
    and "ProxyURL c =
           (if ProxyEnabled c \<and> ProxyHost c \<noteq> [] then
              proxyTypes ! nat (sint (ProxyType c)) @ ''://'' @
              (if ProxyLogin c \<noteq> [] \<or> ProxyPassword c \<noteq> []
               then ProxyLogin c @ '':'' @ ProxyPassword c @ ''@'' else []) @
              ProxyHost c @ '':'' @ Itoa (ProxyPort c)
            else [])"
    and "ResolverPublic st' =
           (if PublicDNSList c \<noteq> [] then New (Split_comma (PublicDNSList c))
            else ResolverPublic st)"
    and "ResolverOpennic st' =
           (if OpennicDNSList c \<noteq> [] then New (Split_comma (OpennicDNSList c))
            else ResolverOpennic st)"
    and "\<exists>st1. validate_paths h st = (Inr (DownloadPath c, LibraryPath c), st1)"
proof -
  from assms obtain dl lib st1 c1 where
    v: "validate_paths h st = (Inr (dl, lib), st1)" and
    p: "proxy_settings (osdb_language (trakt_frequency (memory_storage h
          (config_literal h dl lib (settings_map h))))) = Inr c1" and
    c: "c = connections_limit (fst (reload_resolvers c1 st1))" and
    st': "st' = snd (reload_resolvers c1 st1)"
    by (rule Reload_PublishedD)
  note f = connections_limit_fields reload_resolvers_fields proxy_settings_fields [OF p]
    osdb_language_fields trakt_frequency_fields memory_storage_fields config_literal_fields
  show "DownloadStorage c = the_int (settings_map h ''download_storage'')"
    and "AutoMemorySize c = the_bool (settings_map h ''auto_memory_size'')"
    and "AutoMemorySizeStrategy c = the_int (settings_map h ''auto_memory_size_strategy'')"
    and "ProxyType c = the_int (settings_map h ''proxy_type'')"
    and "ProxyEnabled c = the_bool (settings_map h ''proxy_enabled'')"
    and "ProxyHost c = the_string (settings_map h ''proxy_host'')"
    and "ProxyPort c = the_int (settings_map h ''proxy_port'')"
    and "ProxyLogin c = the_string (settings_map h ''proxy_login'')"
    and "ProxyPassword c = the_string (settings_map h ''proxy_password'')"
    and "PublicDNSList c = Replace_spaces (the_string (settings_map h ''public_dns_list''))"
    and "OpennicDNSList c = Replace_spaces (the_string (settings_map h ''opennic_dns_list''))"
    by (simp_all add: c f)
  show "CompletedMove c =
           (if DownloadStorage c = 1 then False else the_bool (settings_map h ''completed_move''))"
    and "KeepDownloading c =
           (if DownloadStorage c = 1 then 2 else the_int (settings_map h ''keep_downloading''))"
    and "KeepFilesFinished c =
           (if DownloadStorage c = 1 then 2 else the_int (settings_map h ''keep_files_finished''))"
    and "KeepFilesPlaying c =
           (if DownloadStorage c = 1 then 2 else the_int (settings_map h ''keep_files_playing''))"
    by (simp_all add: c f memory_storage_flags)
  show "MemorySize c =
           (if DownloadStorage c = 1 \<and> AutoMemorySize c then
              (if AutoMemorySizeStrategy c = 0 then 40 * 1024 * 1024
               else
                 (let mem = TotalMemory h div 100 * (5 + (5 * (AutoMemorySizeStrategy c - 1)));
                      m1 = (if 0 < mem then mem
                            else the_int (settings_map h ''memory_size'') * 1024 * 1024)
                  in if maxMemorySize <s m1 then maxMemorySize else m1))
            else the_int (settings_map h ''memory_size'') * 1024 * 1024)"
    by (simp add: c f memory_storage_MemorySize Let_def)
  let ?c0 = "osdb_language (trakt_frequency (memory_storage h
          (config_literal h dl lib (settings_map h))))"
  have url0: "ProxyURL ?c0 = []" by (simp add: f)
  from p show "ProxyEnabled c \<and> ProxyHost c \<noteq> [] \<longrightarrow>
           0 \<le> sint (ProxyType c) \<and> sint (ProxyType c) < 4"
    by (auto simp: c f proxy_settings_cases split: if_splits)
  from p url0 have "ProxyURL c1 =
           (if ProxyEnabled ?c0 \<and> ProxyHost ?c0 \<noteq> [] then
              proxyTypes ! nat (sint (ProxyType ?c0)) @ ''://'' @
              (if ProxyLogin ?c0 \<noteq> [] \<or> ProxyPassword ?c0 \<noteq> []
               then ProxyLogin ?c0 @ '':'' @ ProxyPassword ?c0 @ ''@'' else []) @
              ProxyHost ?c0 @ '':'' @ Itoa (ProxyPort ?c0)
            else [])"
    by (auto simp: proxy_settings_cases split: if_splits)
  then show "ProxyURL c =
           (if ProxyEnabled c \<and> ProxyHost c \<noteq> [] then
              proxyTypes ! nat (sint (ProxyType c)) @ ''://'' @
              (if ProxyLogin c \<noteq> [] \<or> ProxyPassword c \<noteq> []
               then ProxyLogin c @ '':'' @ ProxyPassword c @ ''@'' else []) @
              ProxyHost c @ '':'' @ Itoa (ProxyPort c)
            else [])"
    by (simp add: c f)
  from validate_paths_resolvers [OF v]
  show "ResolverPublic st' =
           (if PublicDNSList c \<noteq> [] then New (Split_comma (PublicDNSList c))
            else ResolverPublic st)"
    and "ResolverOpennic st' =
           (if OpennicDNSList c \<noteq> [] then New (Split_comma (OpennicDNSList c))
            else ResolverOpennic st)"
    by (simp_all add: c st' f reload_resolvers_state)
  from v show "\<exists>st1. validate_paths h st = (Inr (DownloadPath c, LibraryPath c), st1)"
    by (simp add: c f)
qed

text \<open>After valid paths, \<open>Reload\<close> publishes exactly when every type assertion holds and
  the index into \<open>proxyTypes\<close> is in range where it is used.\<close>

lemma Reload_publishes_iff:
  assumes "validate_paths h st = (Inr (dl, lib), st1)"
  shows "(\<exists>c st'. Reload h st = (Published c, st')) \<longleftrightarrow>
         (well_typed (settings_map h) \<and>
          (the_bool (settings_map h ''proxy_enabled'') \<and>
           the_string (settings_map h ''proxy_host'') \<noteq> [] \<longrightarrow>
             0 \<le> sint (the_int (settings_map h ''proxy_type'')) \<and>
             sint (the_int (settings_map h ''proxy_type'')) < 4))"
  using assms
  by (auto simp: Reload_def Reload_body_valid Let_def proxy_settings_cases
      osdb_language_fields trakt_frequency_fields memory_storage_fields config_literal_fields
      split: if_splits sum.splits)

lemma Reload_published_selectors:
  "\<exists>c st'. Reload h st = (Published c, st') \<Longrightarrow>
     Reload h st = (Published (published (fst (Reload h st))), snd (Reload h st))"
  by auto

lemma Reload_is_Published:
  "Reload h st = (Published c, st') \<Longrightarrow> is_Published (fst (Reload h st))"
  by simp


subsection \<open>The runs of the example hosts\<close>

lemma example_host_fields:
  "TotalMemory (example_host dl lib extra mem) = mem"
  "GetAllSettings (example_host dl lib extra mem) = example_settings @ extra"
  "ParseFloat (example_host dl lib extra mem) = parse_float_example"
  by (simp_all add: example_host_def)

lemma example_plain_settings: "settings_map (example_host dl lib [] mem) = example_map"
  by (simp add: settings_map_example_host)

text \<open>A host of the examples with valid paths publishes when its settings pass the type
  assertions and its proxy type is an index of the list.\<close>

lemma example_host_run:
  assumes "well_typed (settings_map (example_host ''/d/'' [] extra mem))"
    and "settings_map (example_host ''/d/'' [] extra mem) ''proxy_type'' = Some (VInt t)"
    and "0 \<le> sint t" and "sint t < 4"
  shows "Reload (example_host ''/d/'' [] extra mem) state0 =
     (Published (published (fst (Reload (example_host ''/d/'' [] extra mem) state0))),
      snd (Reload (example_host ''/d/'' [] extra mem) state0))"
proof -
  have "validate_paths (example_host ''/d/'' [] extra mem) state0 = (Inr (''/d'', ''/d''), state0)"
    by (rule validate_paths_example)
  then have "\<exists>c st'. Reload (example_host ''/d/'' [] extra mem) state0 = (Published c, st')"
    using assms by (simp add: Reload_publishes_iff the_simps)
  then show ?thesis by (rule Reload_published_selectors)
qed

lemma sint_small: "sint (1 :: 64 word) = 1" "sint (2 :: 64 word) = 2" "sint (7 :: 64 word) = 7"
  by simp_all

lemma host_socks5_settings: "settings_map host_socks5 = example_map"
  by (simp add: host_socks5_def example_plain_settings)

lemma host_socks5_run:
  "Reload host_socks5 state0 =
     (Published (published (fst (Reload host_socks5 state0))), snd (Reload host_socks5 state0))"
  unfolding host_socks5_def
  by (rule example_host_run [where t = 1])
    (simp_all add: example_plain_settings well_typed_example_map example_map_lookup)

lemma host_8g_settings: "settings_map host_8g = example_map"
  by (simp add: host_8g_def example_plain_settings)

lemma host_8g_run:
  "Reload host_8g state0 =
     (Published (published (fst (Reload host_8g state0))), snd (Reload host_8g state0))"
  unfolding host_8g_def
  by (rule example_host_run [where t = 1])
    (simp_all add: example_plain_settings well_typed_example_map example_map_lookup)

lemma host_nomem_settings: "settings_map host_nomem = example_map"
  by (simp add: host_nomem_def example_plain_settings)

lemma host_nomem_run:
  "Reload host_nomem state0 =
     (Published (published (fst (Reload host_nomem state0))), snd (Reload host_nomem state0))"
  unfolding host_nomem_def
  by (rule example_host_run [where t = 1])
    (simp_all add: example_plain_settings well_typed_example_map example_map_lookup)

lemma host_http_settings:
  "settings_map host_http =
     example_map(''proxy_type'' \<mapsto> VInt 2, ''proxy_port'' \<mapsto> VInt 80,
       ''proxy_login'' \<mapsto> VString ''u'', ''proxy_password'' \<mapsto> VString ''p'')"
  by (simp add: host_http_def settings_map_example_host coerce_def Atoi_examples)

lemma host_http_typed: "well_typed (settings_map host_http)"
  unfolding host_http_settings
  by (intro well_typed_upd [where t = TInt] well_typed_upd [where t = TString]
      well_typed_example_map)
    (simp_all add: example_map_lookup the_simps)

lemma host_http_run:
  "Reload host_http state0 =
     (Published (published (fst (Reload host_http state0))), snd (Reload host_http state0))"
  using host_http_typed host_http_settings
  unfolding host_http_def
  by (intro example_host_run [where t = 2]) simp_all

lemma host_strategy0_settings:
  "settings_map host_strategy0 = example_map(''auto_memory_size_strategy'' \<mapsto> VInt 0)"
  by (simp add: host_strategy0_def settings_map_example_host coerce_def Atoi_examples)

lemma host_strategy0_typed: "well_typed (settings_map host_strategy0)"
  unfolding host_strategy0_settings
  by (intro well_typed_upd [where t = TInt] well_typed_example_map)
    (simp_all add: example_map_lookup the_simps)

lemma host_strategy0_run:
  "Reload host_strategy0 state0 =
     (Published (published (fst (Reload host_strategy0 state0))),
      snd (Reload host_strategy0 state0))"
  using host_strategy0_typed host_strategy0_settings
  unfolding host_strategy0_def
  by (intro example_host_run [where t = 1]) (simp_all add: example_map_lookup)

lemma host_nomem300_settings:
  "settings_map host_nomem300 = example_map(''memory_size'' \<mapsto> VInt 300)"
  by (simp add: host_nomem300_def settings_map_example_host coerce_def int_of_float_def
      example_host_fields parse_float_example_def truncate_real_def float_positive_def Let_def)

lemma host_nomem300_typed: "well_typed (settings_map host_nomem300)"
  unfolding host_nomem300_settings
  by (intro well_typed_upd [where t = TInt] well_typed_example_map)
    (simp_all add: example_map_lookup the_simps)

lemma host_nomem300_run:
  "Reload host_nomem300 state0 =
     (Published (published (fst (Reload host_nomem300 state0))),
      snd (Reload host_nomem300 state0))"
  using host_nomem300_typed host_nomem300_settings
  unfolding host_nomem300_def
  by (intro example_host_run [where t = 1]) (simp_all add: example_map_lookup)


subsection \<open>Memory storage forces the flags\<close>

text \<open>
  Claim C7. Whenever the coerced setting \<open>download_storage\<close> is the integer 1 and the reload
  publishes, the published Configuration has \<open>DownloadStorage = 1\<close>, \<open>CompletedMove\<close>
  false and \<open>KeepDownloading\<close>, \<open>KeepFilesFinished\<close> and \<open>KeepFilesPlaying\<close> equal to 2,
  whatever the settings of these four flags are.
\<close>

theorem memory_storage_forces_flags:
  assumes "Reload h st = (Published c, st')"
    and "settings_map h ''download_storage'' = Some (VInt 1)"
  shows "DownloadStorage c = 1 \<and> \<not> CompletedMove c \<and> KeepDownloading c = 2
         \<and> KeepFilesFinished c = 2 \<and> KeepFilesPlaying c = 2"
  using Reload_Published_fields(1,12-15) [OF assms(1)] assms(2)
  by (simp add: the_simps)

theorem memory_storage_forces_flags_witness:
  "settings_map host_socks5 ''download_storage'' = Some (VInt 1)
   \<and> settings_map host_socks5 ''completed_move'' = Some (VBool True)
   \<and> settings_map host_socks5 ''keep_downloading'' = Some (VInt 1)
   \<and> settings_map host_socks5 ''keep_files_finished'' = Some (VInt 0)
   \<and> settings_map host_socks5 ''keep_files_playing'' = Some (VInt 1)
   \<and> is_Published (fst (Reload host_socks5 state0))
   \<and> DownloadStorage (published (fst (Reload host_socks5 state0))) = 1
   \<and> \<not> CompletedMove (published (fst (Reload host_socks5 state0)))
   \<and> KeepDownloading (published (fst (Reload host_socks5 state0))) = 2
   \<and> KeepFilesFinished (published (fst (Reload host_socks5 state0))) = 2
   \<and> KeepFilesPlaying (published (fst (Reload host_socks5 state0))) = 2"
  using memory_storage_forces_flags [OF host_socks5_run] Reload_is_Published [OF host_socks5_run]
  by (simp add: host_socks5_settings example_map_lookup)

subsection \<open>The proxy URL\<close>

text \<open>
  Claim C1, as the code has it. Whenever a reload publishes a Configuration with the proxy
  enabled and a non-empty proxy host, the proxy type is an index from 0 to 3 and
  \<open>ProxyURL\<close> is the element of \<open>proxyTypes\<close> at that index, written as in the list
  (\<open>Socks4\<close>, \<open>Socks5\<close>, \<open>HTTP\<close>, \<open>HTTPS\<close>), followed by \<open>://\<close>, by
  \<open>login:password@\<close> unless login and password are both empty, and by \<open>host:port\<close> with
  the port in decimal.
\<close>

theorem proxy_url_assembly:
  assumes "Reload h st = (Published c, st')"
    and "ProxyEnabled c" and "ProxyHost c \<noteq> []"
  shows "0 \<le> sint (ProxyType c) \<and> sint (ProxyType c) < 4
         \<and> ProxyURL c =
             [''Socks4'', ''Socks5'', ''HTTP'', ''HTTPS''] ! nat (sint (ProxyType c)) @ ''://'' @
             (if ProxyLogin c = [] \<and> ProxyPassword c = [] then []
              else ProxyLogin c @ '':'' @ ProxyPassword c @ ''@'') @
             ProxyHost c @ '':'' @ Itoa (ProxyPort c)"
  using Reload_Published_fields(17,18) [OF assms(1)] assms(2,3)
  by (simp add: proxyTypes_def)

lemma Itoa_examples: "Itoa 80 = ''80''" "Itoa 1080 = ''1080''"
  by (simp_all add: Itoa_def digits10.simps)

lemma host_http_proxy:
  "ProxyEnabled (published (fst (Reload host_http state0)))"
  "ProxyType (published (fst (Reload host_http state0))) = 2"
  "ProxyHost (published (fst (Reload host_http state0))) = ''h''"
  "ProxyPort (published (fst (Reload host_http state0))) = 80"
  "ProxyLogin (published (fst (Reload host_http state0))) = ''u''"
  "ProxyPassword (published (fst (Reload host_http state0))) = ''p''"
  using Reload_Published_fields(4-9) [OF host_http_run]
  by (simp_all add: host_http_settings example_map_lookup the_simps)

theorem proxy_url_assembly_witness:
  "is_Published (fst (Reload host_http state0))
   \<and> ProxyEnabled (published (fst (Reload host_http state0)))
   \<and> ProxyType (published (fst (Reload host_http state0))) = 2
   \<and> ProxyHost (published (fst (Reload host_http state0))) = ''h''
   \<and> ProxyPort (published (fst (Reload host_http state0))) = 80
   \<and> ProxyLogin (published (fst (Reload host_http state0))) = ''u''
   \<and> ProxyPassword (published (fst (Reload host_http state0))) = ''p''
   \<and> ProxyURL (published (fst (Reload host_http state0))) = ''HTTP://u:p@h:80''"
  using proxy_url_assembly [OF host_http_run] Reload_is_Published [OF host_http_run] host_http_proxy
  by (simp add: Itoa_examples)

lemma host_socks5_proxy:
  "ProxyEnabled (published (fst (Reload host_socks5 state0)))"
  "ProxyType (published (fst (Reload host_socks5 state0))) = 1"
  "ProxyHost (published (fst (Reload host_socks5 state0))) = ''h''"
  "ProxyPort (published (fst (Reload host_socks5 state0))) = 1080"
  "ProxyLogin (published (fst (Reload host_socks5 state0))) = []"
  "ProxyPassword (published (fst (Reload host_socks5 state0))) = []"
  using Reload_Published_fields(4-9) [OF host_socks5_run]
  by (simp_all add: host_socks5_settings example_map_lookup the_simps)

text \<open>
  Claim C1 as stated fails at its own first example: with type 1, host \<open>h\<close>, port 1080 and
  no credentials the published URL is \<open>Socks5://h:1080\<close>, with the capital letter of the
  list, not \<open>socks5://h:1080\<close>.
\<close>

theorem proxy_url_socks5_counterexample:
  "is_Published (fst (Reload host_socks5 state0))
   \<and> ProxyEnabled (published (fst (Reload host_socks5 state0)))
   \<and> ProxyType (published (fst (Reload host_socks5 state0))) = 1
   \<and> ProxyHost (published (fst (Reload host_socks5 state0))) = ''h''
   \<and> ProxyPort (published (fst (Reload host_socks5 state0))) = 1080
   \<and> ProxyLogin (published (fst (Reload host_socks5 state0))) = []
   \<and> ProxyPassword (published (fst (Reload host_socks5 state0))) = []
   \<and> ProxyURL (published (fst (Reload host_socks5 state0))) = ''Socks5://h:1080''
   \<and> ProxyURL (published (fst (Reload host_socks5 state0))) \<noteq> ''socks5://h:1080''"
  using Reload_Published_fields(18) [OF host_socks5_run] Reload_is_Published [OF host_socks5_run]
    host_socks5_proxy
  by (simp add: Itoa_examples proxyTypes_def)

subsection \<open>The index into the list of proxy types\<close>

text \<open>
  Claim C9. Whenever the coerced settings have the proxy enabled, a non-empty proxy host
  and a proxy type outside 0..3, the reload publishes nothing; and when it reaches the
  assembly of the URL (the paths are valid and every type assertion of the literal holds)
  it panics with the index-out-of-range error, which the deferred function turns into the
  abort with the message of \<open>settingsWarning\<close>, by default \<open>LOCALIZE[30314]\<close>.
\<close>

theorem proxy_type_out_of_range:
  assumes "settings_map h ''proxy_enabled'' = Some (VBool True)"
    and "settings_map h ''proxy_host'' = Some (VString host_name)" and "host_name \<noteq> []"
    and "settings_map h ''proxy_type'' = Some (VInt t)"
    and "\<not> (0 \<le> sint t \<and> sint t < 4)"
  shows "(\<forall>c. fst (Reload h st) \<noteq> Published c)
         \<and> (\<forall>dl lib st1. validate_paths h st = (Inr (dl, lib), st1) \<and> well_typed (settings_map h)
               \<longrightarrow> Reload_body h st = (Inl IndexOutOfRange, st1)
                 \<and> Reload h st =
                     (Aborted (if settingsWarning st \<noteq> [] then settingsWarning st
                               else ''LOCALIZE[30314]''), st1))"
proof (intro conjI allI impI)
  fix c
  show "fst (Reload h st) \<noteq> Published c"
  proof
    assume "fst (Reload h st) = Published c"
    then have r: "Reload h st = (Published c, snd (Reload h st))"
      by (metis prod.collapse)
    from Reload_Published_fields(4-6,17) [OF r] assms show False
      by (simp add: the_simps)
  qed
next
  fix dl lib st1
  assume a: "validate_paths h st = (Inr (dl, lib), st1) \<and> well_typed (settings_map h)"
  then have v: "validate_paths h st = (Inr (dl, lib), st1)" and w: "well_typed (settings_map h)"
    by simp_all
  from assms w show b: "Reload_body h st = (Inl IndexOutOfRange, st1)"
    by (simp add: Reload_body_valid [OF v] proxy_settings_cases osdb_language_fields
        trakt_frequency_fields memory_storage_fields config_literal_fields the_simps)
  from b show "Reload h st =
     (Aborted (if settingsWarning st \<noteq> [] then settingsWarning st else ''LOCALIZE[30314]''), st1)"
    by (simp add: Reload_aborts_late [OF v])
qed

lemma host_proxy7_settings:
  "settings_map host_proxy7 = example_map(''proxy_type'' \<mapsto> VInt 7)"
  by (simp add: host_proxy7_def settings_map_example_host coerce_def Atoi_examples)

lemma host_proxy7_typed: "well_typed (settings_map host_proxy7)"
  unfolding host_proxy7_settings
  by (intro well_typed_upd [where t = TInt] well_typed_example_map)
    (simp_all add: example_map_lookup the_simps)

lemma host_proxy7_paths:
  "validate_paths host_proxy7 state0 = (Inr (''/d'', ''/d''), state0)"
  by (simp add: host_proxy7_def validate_paths_example)

theorem proxy_type_out_of_range_witness:
  "settings_map host_proxy7 ''proxy_enabled'' = Some (VBool True)
   \<and> settings_map host_proxy7 ''proxy_host'' = Some (VString ''h'')
   \<and> settings_map host_proxy7 ''proxy_type'' = Some (VInt 7)
   \<and> validate_paths host_proxy7 state0 = (Inr (''/d'', ''/d''), state0)
   \<and> well_typed (settings_map host_proxy7)
   \<and> Reload_body host_proxy7 state0 = (Inl IndexOutOfRange, state0)
   \<and> Reload host_proxy7 state0 = (Aborted ''LOCALIZE[30314]'', state0)"
  using proxy_type_out_of_range [of host_proxy7 "''h''" 7 state0]
    host_proxy7_typed host_proxy7_paths
  by (simp add: host_proxy7_settings example_map_lookup state0_def)


subsection \<open>The adaptive memory size\<close>

lemma sint_of_small_unat:
  fixes w :: "64 word"
  assumes "unat w < 2 ^ 63"
  shows "sint w = int (unat w)"
proof -
  from assms have "uint w < 2 ^ 63"
    by (metis (mono_tags, lifting) of_nat_less_numeral_power_cancel_iff of_nat_unat)
  moreover have "- (2 ^ 63) \<le> uint w"
    by (rule order_trans [of _ 0]) simp_all
  ultimately have "sint w = uint w"
    by (simp add: sint_uint signed_take_bit_int_eq_self)
  then show ?thesis by (simp only: uint_nat)
qed

lemma sint_nonneg_unat:
  fixes w :: "64 word"
  assumes "0 \<le> sint w"
  shows "sint w = int (unat w)"
proof -
  from assms have nb: "\<not> bit (uint w) 63" by (simp add: sint_uint)
  then have s: "sint w = take_bit 63 (uint w)"
    by (simp add: sint_uint signed_take_bit_eq_if_positive)
  have "take_bit (Suc 63) (uint w) = 2 ^ 63 * of_bool (bit (uint w) 63) + take_bit 63 (uint w)"
    by (rule take_bit_Suc_from_most)
  with nb have "take_bit 64 (uint w) = take_bit 63 (uint w)" by simp
  moreover have "take_bit 64 (uint w) = uint w"
    by (rule take_bit_int_eq_self) (use uint_lt2p [of w] in simp_all)
  ultimately have "sint w = uint w" using s by simp
  then show ?thesis by (simp only: uint_nat)
qed

text \<open>The share of the memory as the code computes it, read as a natural number, when
  nothing wraps around.\<close>

lemma memory_share_unat:
  fixes total s :: "64 word"
  assumes s: "1 \<le> sint s"
    and pos: "0 < unat total div 100 * (5 + 5 * (nat (sint s) - 1))"
    and small: "unat total div 100 * (5 + 5 * (nat (sint s) - 1)) < 2 ^ 63"
  shows "unat (total div 100 * (5 + (5 * (s - 1)))) =
           unat total div 100 * (5 + 5 * (nat (sint s) - 1))"
proof -
  from s have "sint s = int (unat s)" by (intro sint_nonneg_unat) simp
  then have n: "nat (sint s) = unat s" by simp
  from s n have n1: "1 \<le> unat s" by linarith
  from pos have q1: "1 \<le> unat total div 100"
    by (cases "unat total div 100") simp_all
  have p: "5 + 5 * (unat s - 1) = 5 * unat s" using n1 by simp
  have le: "5 * unat s \<le> unat total div 100 * (5 * unat s)" using q1 by simp
  from small n p have "unat total div 100 * (5 * unat s) < 2 ^ 63" by simp
  with le have b5: "5 * unat s < 2 ^ 63" by (rule le_less_trans)
  have w: "5 + (5 * (s - 1)) = 5 * s" by (simp add: algebra_simps)
  have "unat (5 :: 64 word) * unat s < 2 ^ LENGTH(64)" using b5 by simp
  then have "unat (5 * s) = unat (5 :: 64 word) * unat s"
    by (simp only: unat_mult_lem)
  then have u5: "unat (5 * s) = 5 * unat s" by simp
  have ud: "unat (total div 100) = unat total div 100"
    by (simp add: unat_div)
  from small n p have "unat (total div 100) * unat (5 * s) < 2 ^ LENGTH(64)"
    by (simp add: u5 ud)
  then have "unat (total div 100 * (5 * s)) = unat (total div 100) * unat (5 * s)"
    by (simp only: unat_mult_lem)
  then show ?thesis by (simp only: w u5 ud n p)
qed

text \<open>
  Claim C2, as the code has it. In a reload that publishes with memory storage
  (\<open>DownloadStorage = 1\<close>) and the automatic memory size, strategy 0 sets \<open>MemorySize\<close> to
  exactly 40 MiB; a strategy \<open>s \<ge> 1\<close> takes the hundredth part of the total memory first
  (integer division) and multiplies it by \<open>5 + 5 (s - 1)\<close>, and whenever this product is
  positive (and below \<open>2^63\<close>, so that nothing wraps around) \<open>MemorySize\<close> is the smaller of
  the product and 200 MiB.
\<close>

theorem adaptive_memory_size:
  assumes "Reload h st = (Published c, st')"
    and "DownloadStorage c = 1" and "AutoMemorySize c"
  shows "(AutoMemorySizeStrategy c = 0 \<longrightarrow> MemorySize c = 40 * 1024 * 1024)
         \<and> (1 \<le> sint (AutoMemorySizeStrategy c)
              \<and> 0 < unat (TotalMemory h) div 100 * (5 + 5 * (nat (sint (AutoMemorySizeStrategy c)) - 1))
              \<and> unat (TotalMemory h) div 100 * (5 + 5 * (nat (sint (AutoMemorySizeStrategy c)) - 1))
                    < 2 ^ 63
              \<longrightarrow> sint (MemorySize c) =
                    min (int (unat (TotalMemory h) div 100
                              * (5 + 5 * (nat (sint (AutoMemorySizeStrategy c)) - 1))))
                        (200 * 1024 * 1024))"
proof (intro conjI impI)
  assume "AutoMemorySizeStrategy c = 0"
  with Reload_Published_fields(16) [OF assms(1)] assms(2,3)
  show "MemorySize c = 40 * 1024 * 1024" by simp
next
  let ?s = "AutoMemorySizeStrategy c"
  let ?share = "unat (TotalMemory h) div 100 * (5 + 5 * (nat (sint ?s) - 1))"
  let ?mem = "TotalMemory h div 100 * (5 + (5 * (?s - 1)))"
  assume a: "1 \<le> sint ?s \<and> 0 < ?share \<and> ?share < 2 ^ 63"
  then have u: "unat ?mem = ?share" by (intro memory_share_unat) simp_all
  with a have sm: "sint ?mem = int ?share" by (simp add: sint_of_small_unat)
  from a u have pos: "0 < ?mem" by (simp add: word_less_nat_alt)
  from a have s0: "?s \<noteq> 0" by auto
  have mx: "sint maxMemorySize = 200 * 1024 * 1024" by (simp add: maxMemorySize_def)
  from Reload_Published_fields(16) [OF assms(1)] assms(2,3) s0 pos
  have "MemorySize c = (if maxMemorySize <s ?mem then maxMemorySize else ?mem)"
    by (simp add: Let_def)
  then show "sint (MemorySize c) = min (int ?share) (200 * 1024 * 1024)"
    using sm mx by (simp add: word_sless_alt min_def)
qed

lemma host_memory_settings:
  "DownloadStorage (published (fst (Reload host_socks5 state0))) = 1"
  "AutoMemorySize (published (fst (Reload host_socks5 state0)))"
  "AutoMemorySizeStrategy (published (fst (Reload host_socks5 state0))) = 1"
  "DownloadStorage (published (fst (Reload host_8g state0))) = 1"
  "AutoMemorySize (published (fst (Reload host_8g state0)))"
  "AutoMemorySizeStrategy (published (fst (Reload host_8g state0))) = 1"
  "DownloadStorage (published (fst (Reload host_strategy0 state0))) = 1"
  "AutoMemorySize (published (fst (Reload host_strategy0 state0)))"
  "AutoMemorySizeStrategy (published (fst (Reload host_strategy0 state0))) = 0"
  "DownloadStorage (published (fst (Reload host_nomem state0))) = 1"
  "AutoMemorySize (published (fst (Reload host_nomem state0)))"
  "AutoMemorySizeStrategy (published (fst (Reload host_nomem state0))) = 1"
  "DownloadStorage (published (fst (Reload host_nomem300 state0))) = 1"
  "AutoMemorySize (published (fst (Reload host_nomem300 state0)))"
  "AutoMemorySizeStrategy (published (fst (Reload host_nomem300 state0))) = 1"
  using Reload_Published_fields(1-3) [OF host_socks5_run]
    Reload_Published_fields(1-3) [OF host_8g_run]
    Reload_Published_fields(1-3) [OF host_strategy0_run]
    Reload_Published_fields(1-3) [OF host_nomem_run]
    Reload_Published_fields(1-3) [OF host_nomem300_run]
  by (simp_all add: host_socks5_settings host_8g_settings host_strategy0_settings
      host_nomem_settings host_nomem300_settings example_map_lookup the_simps)

lemma host_total_memory:
  "TotalMemory host_socks5 = 2147483648" "TotalMemory host_8g = 8589934592"
  "TotalMemory host_strategy0 = 2147483648" "TotalMemory host_nomem = 0"
  "TotalMemory host_nomem300 = 0"
  by (simp_all add: host_socks5_def host_8g_def host_strategy0_def host_nomem_def
      host_nomem300_def example_host_fields)

theorem adaptive_memory_size_witness:
  "is_Published (fst (Reload host_strategy0 state0))
   \<and> MemorySize (published (fst (Reload host_strategy0 state0))) = 41943040
   \<and> is_Published (fst (Reload host_socks5 state0))
   \<and> sint (MemorySize (published (fst (Reload host_socks5 state0)))) = 107374180
   \<and> is_Published (fst (Reload host_8g state0))
   \<and> sint (MemorySize (published (fst (Reload host_8g state0)))) = 209715200"
  using adaptive_memory_size [OF host_strategy0_run] adaptive_memory_size [OF host_socks5_run]
    adaptive_memory_size [OF host_8g_run]
    Reload_is_Published [OF host_strategy0_run] Reload_is_Published [OF host_socks5_run]
    Reload_is_Published [OF host_8g_run]
  by (simp add: host_memory_settings host_total_memory)

text \<open>
  Claim C2 as stated fails for a system with 2 GiB of memory and strategy 1: the code
  divides by 100 before it multiplies and gets 107374180 bytes, where 5 percent of the
  total memory is 107374182.4 bytes (107374182 with integer division at the end).
\<close>

theorem adaptive_memory_size_counterexample:
  "is_Published (fst (Reload host_socks5 state0))
   \<and> DownloadStorage (published (fst (Reload host_socks5 state0))) = 1
   \<and> AutoMemorySize (published (fst (Reload host_socks5 state0)))
   \<and> AutoMemorySizeStrategy (published (fst (Reload host_socks5 state0))) = 1
   \<and> TotalMemory host_socks5 = 2147483648
   \<and> MemorySize (published (fst (Reload host_socks5 state0))) = 107374180
   \<and> min (2147483648 * (5 + 5 * (1 - 1)) div 100) (200 * 1024 * 1024) = (107374182 :: nat)
   \<and> min (2147483648 * (5 + 5 * (1 - 1)) / 100) (200 * 1024 * 1024) = (107374182.4 :: real)"
  using Reload_Published_fields(16) [OF host_socks5_run] Reload_is_Published [OF host_socks5_run]
  by (simp add: host_memory_settings host_total_memory maxMemorySize_def Let_def
      word_sless_alt)

subsection \<open>A share of zero\<close>

text \<open>
  Claim C10, as the code has it. In a reload that publishes with memory storage, the
  automatic memory size and a strategy other than 0, the computed share replaces
  \<open>MemorySize\<close> only when it is positive; when it is zero \<open>MemorySize\<close> stays at the
  \<open>memory_size\<close> setting times 1048576, and is then capped at 200 MiB like a computed share.
\<close>

theorem zero_share_keeps_setting:
  assumes "Reload h st = (Published c, st')"
    and "DownloadStorage c = 1" and "AutoMemorySize c" and "AutoMemorySizeStrategy c \<noteq> 0"
  shows "(TotalMemory h div 100 * (5 + (5 * (AutoMemorySizeStrategy c - 1))) = 0 \<longrightarrow>
            MemorySize c =
              (if maxMemorySize <s the_int (settings_map h ''memory_size'') * 1024 * 1024
               then maxMemorySize
               else the_int (settings_map h ''memory_size'') * 1024 * 1024))
         \<and> (TotalMemory h div 100 * (5 + (5 * (AutoMemorySizeStrategy c - 1))) \<noteq> 0 \<longrightarrow>
            MemorySize c =
              (if maxMemorySize <s TotalMemory h div 100 * (5 + (5 * (AutoMemorySizeStrategy c - 1)))
               then maxMemorySize
               else TotalMemory h div 100 * (5 + (5 * (AutoMemorySizeStrategy c - 1)))))"
  using Reload_Published_fields(16) [OF assms(1)] assms(2-4)
  by (simp add: Let_def word_greater_zero_iff)

theorem zero_share_keeps_setting_witness:
  "is_Published (fst (Reload host_nomem state0))
   \<and> TotalMemory host_nomem = 0
   \<and> settings_map host_nomem ''memory_size'' = Some (VInt 100)
   \<and> MemorySize (published (fst (Reload host_nomem state0))) = 100 * 1048576
   \<and> is_Published (fst (Reload host_socks5 state0))
   \<and> MemorySize (published (fst (Reload host_socks5 state0))) = 107374180"
  using zero_share_keeps_setting [OF host_nomem_run] zero_share_keeps_setting [OF host_socks5_run]
    Reload_is_Published [OF host_nomem_run] Reload_is_Published [OF host_socks5_run]
  by (simp add: host_memory_settings host_total_memory host_nomem_settings host_socks5_settings
      example_map_lookup the_simps maxMemorySize_def word_sless_alt)

text \<open>
  Claim C10 as stated fails when the setting is above the cap: with \<open>memory_size\<close> 300, no
  reading of the total memory and strategy 1 the share is zero, and \<open>MemorySize\<close> is
  200 MiB, not 300 times 1048576.
\<close>

theorem zero_share_capped_counterexample:
  "is_Published (fst (Reload host_nomem300 state0))
   \<and> DownloadStorage (published (fst (Reload host_nomem300 state0))) = 1
   \<and> AutoMemorySize (published (fst (Reload host_nomem300 state0)))
   \<and> AutoMemorySizeStrategy (published (fst (Reload host_nomem300 state0))) = 1
   \<and> TotalMemory host_nomem300 div 100 * (5 + (5 * (1 - 1))) = 0
   \<and> settings_map host_nomem300 ''memory_size'' = Some (VInt 300)
   \<and> MemorySize (published (fst (Reload host_nomem300 state0))) = 209715200
   \<and> MemorySize (published (fst (Reload host_nomem300 state0))) \<noteq> 300 * 1048576"
  using Reload_Published_fields(16) [OF host_nomem300_run]
    Reload_is_Published [OF host_nomem300_run]
  by (simp add: host_memory_settings host_total_memory host_nomem300_settings the_simps
      maxMemorySize_def Let_def word_sless_alt)


subsection \<open>The DNS resolvers\<close>

lemma Split_comma_no_comma: "w \<in> set (Split_comma s) \<Longrightarrow> CHR '','' \<notin> set w"
  by (induction s arbitrary: w) (auto split: if_splits list.splits)

lemma Split_comma_chars: "w \<in> set (Split_comma s) \<Longrightarrow> x \<in> set w \<Longrightarrow> x \<in> set s"
proof (induction s arbitrary: w)
  case Nil
  then show ?case by simp
next
  case (Cons c cs)
  show ?case
  proof (cases "c = CHR '',''")
    case True
    with Cons show ?thesis by auto
  next
    case False
    obtain v vs where sp: "Split_comma cs = v # vs"
      by (cases "Split_comma cs") (cases cs; simp split: if_splits list.splits)+
    with False Cons.prems have "w = c # v \<or> w \<in> set vs" by simp
    then show ?thesis
    proof
      assume "w = c # v"
      with Cons.prems(2) have "x = c \<or> x \<in> set v" by simp
      with Cons.IH [of v] sp show ?thesis by auto
    next
      assume "w \<in> set vs"
      with Cons.IH [of w] sp Cons.prems(2) show ?thesis by auto
    qed
  qed
qed

text \<open>
  Claim C6, as the code has it. A reload that publishes drops every space character (and no
  other character) from each of the two lists; where the result is not empty, the resolver
  of the category is made anew from the pieces between the commas of the result, none of
  which has a space or a comma in it; where the result is empty, the resolver stays as it
  was.
\<close>

theorem dns_resolvers_rebuilt:
  assumes "Reload h st = (Published c, st')"
  shows "PublicDNSList c =
           filter (\<lambda>ch. ch \<noteq> CHR '' '') (the_string (settings_map h ''public_dns_list''))
         \<and> OpennicDNSList c =
           filter (\<lambda>ch. ch \<noteq> CHR '' '') (the_string (settings_map h ''opennic_dns_list''))
         \<and> ResolverPublic st' =
             (if PublicDNSList c \<noteq> [] then New (Split_comma (PublicDNSList c))
              else ResolverPublic st)
         \<and> ResolverOpennic st' =
             (if OpennicDNSList c \<noteq> [] then New (Split_comma (OpennicDNSList c))
              else ResolverOpennic st)
         \<and> (\<forall>a \<in> set (Split_comma (PublicDNSList c)) \<union> set (Split_comma (OpennicDNSList c)).
               CHR '' '' \<notin> set a \<and> CHR '','' \<notin> set a)"
proof -
  note f = Reload_Published_fields(10,11,19,20) [OF assms]
  have "CHR '' '' \<notin> set a \<and> CHR '','' \<notin> set a"
    if "a \<in> set (Split_comma (PublicDNSList c)) \<union> set (Split_comma (OpennicDNSList c))" for a
  proof -
    have "CHR '' '' \<notin> set a"
    proof
      assume sp: "CHR '' '' \<in> set a"
      from that sp have "CHR '' '' \<in> set (PublicDNSList c) \<or> CHR '' '' \<in> set (OpennicDNSList c)"
        by (auto dest: Split_comma_chars)
      with f(1,2) show False by (simp add: Replace_spaces_def)
    qed
    moreover from that have "CHR '','' \<notin> set a" by (auto dest: Split_comma_no_comma)
    ultimately show ?thesis by simp
  qed
  with f show ?thesis by (simp add: Replace_spaces_def)
qed

theorem dns_resolvers_rebuilt_witness:
  "is_Published (fst (Reload host_socks5 state0))
   \<and> settings_map host_socks5 ''public_dns_list'' = Some (VString ''1.1.1.1, 8.8.8.8 ,9.9.9.9'')
   \<and> settings_map host_socks5 ''opennic_dns_list'' = Some (VString [])
   \<and> PublicDNSList (published (fst (Reload host_socks5 state0))) = ''1.1.1.1,8.8.8.8,9.9.9.9''
   \<and> ResolverPublic (snd (Reload host_socks5 state0)) = New [''1.1.1.1'', ''8.8.8.8'', ''9.9.9.9'']
   \<and> ResolverOpennic (snd (Reload host_socks5 state0)) = ResolverOpennic state0"
  using dns_resolvers_rebuilt [OF host_socks5_run] Reload_is_Published [OF host_socks5_run]
  by (simp add: host_socks5_settings example_map_lookup the_simps)

lemma host_tab_settings:
  "settings_map host_tab =
     example_map(''public_dns_list'' \<mapsto> VString (''1.1.1.1,'' @ [CHR 0x09] @ ''8.8.8.8''),
                 ''opennic_dns_list'' \<mapsto> VString ''  '')"
  by (simp add: host_tab_def settings_map_example_host coerce_def)

lemma host_tab_typed: "well_typed (settings_map host_tab)"
  unfolding host_tab_settings
  by (intro well_typed_upd [where t = TString] well_typed_example_map)
    (simp_all add: example_map_lookup the_simps)

lemma host_tab_run:
  "Reload host_tab state0 =
     (Published (published (fst (Reload host_tab state0))), snd (Reload host_tab state0))"
  using host_tab_typed host_tab_settings
  unfolding host_tab_def
  by (intro example_host_run [where t = 1]) (simp_all add: example_map_lookup)

text \<open>
  Claim C6 as stated fails for white space other than the space character: a tabulator in
  the list of public servers stays in the address that the resolver is made from.
\<close>

theorem dns_tabulator_counterexample:
  "is_Published (fst (Reload host_tab state0))
   \<and> settings_map host_tab ''public_dns_list'' =
       Some (VString (''1.1.1.1,'' @ [CHR 0x09] @ ''8.8.8.8''))
   \<and> ResolverPublic (snd (Reload host_tab state0)) = New [''1.1.1.1'', CHR 0x09 # ''8.8.8.8'']"
  using Reload_Published_fields(10,19) [OF host_tab_run] Reload_is_Published [OF host_tab_run]
  by (simp add: host_tab_settings the_simps Replace_spaces_def)


subsection \<open>Coercion of sliders and numbers\<close>

lemma ParseInt_syntax_error: "snd (ParseInt v) = Some ErrSyntax \<Longrightarrow> fst (ParseInt v) = 0"
  unfolding ParseInt_def Let_def
  by (cases "ParseUint (if hd v = CHR ''+'' \<or> hd v = CHR ''-'' then tl v else v)")
     (simp split: if_splits)

lemma Atoi_syntax_error: "snd (Atoi v) = Some ErrSyntax \<Longrightarrow> fst (Atoi v) = 0"
  using ParseInt_syntax_error [of v]
  by (cases "ParseInt v") (simp add: Atoi_def)

lemma ParseInt_range_error:
  "snd (ParseInt v) = Some ErrRange \<Longrightarrow>
     fst (ParseInt v) = 2 ^ 63 - 1 \<or> fst (ParseInt v) = - (2 ^ 63)"
  unfolding ParseInt_def Let_def
  by (cases "ParseUint (if hd v = CHR ''+'' \<or> hd v = CHR ''-'' then tl v else v)")
     (simp split: if_splits)

lemma Atoi_range_error:
  "snd (Atoi v) = Some ErrRange \<Longrightarrow>
     fst (Atoi v) = 9223372036854775807 \<or> fst (Atoi v) = - 9223372036854775808"
  using ParseInt_range_error [of v]
  by (cases "ParseInt v") (auto simp add: Atoi_def)

lemma sint_word_of_int_64:
  "- (2 ^ 63) \<le> k \<Longrightarrow> k < 2 ^ 63 \<Longrightarrow> sint (word_of_int k :: 64 word) = k"
  by (simp add: signed_of_int signed_take_bit_int_eq_self)

lemma truncate_real_nonneg:
  "0 \<le> r \<Longrightarrow> of_int (truncate_real r) \<le> r \<and> r < of_int (truncate_real r) + 1"
  by (simp add: truncate_real_def; linarith)

lemma truncate_real_neg:
  "r < 0 \<Longrightarrow> r \<le> of_int (truncate_real r) \<and> of_int (truncate_real r) - 1 < r"
  by (simp add: truncate_real_def; linarith)

lemma truncate_real_range:
  assumes "- (2 ^ 63) \<le> r" and "r < 2 ^ 63"
  shows "- (2 ^ 63) \<le> truncate_real r \<and> truncate_real r < 2 ^ 63"
proof (cases "0 \<le> r")
  case True
  then have "0 \<le> \<lfloor>r\<rfloor>" by simp
  moreover from assms(2) have "\<lfloor>r\<rfloor> < 2 ^ 63" by (simp add: floor_less_iff)
  ultimately show ?thesis using True by (simp add: truncate_real_def)
next
  case False
  then have "\<lceil>r\<rceil> \<le> 0" by (simp add: ceiling_le_iff)
  moreover from assms(1) have "- (2 ^ 63) \<le> \<lceil>r\<rceil>" by (simp add: le_ceiling_iff)
  ultimately show ?thesis using False by (simp add: truncate_real_def)
qed

text \<open>
  Claim C5, as the code has it. A slider with the option \<open>percent\<close> or \<open>int\<close> is stored as
  the integer that \<^verbatim>\<open>int(floated)\<close> makes of the parsed number: for a finite number
  within the range of \<^verbatim>\<open>int\<close> the integer next to it towards zero (at most the number
  and less than one below it when the number is not negative, at least the number and less
  than one above it when it is negative). A slider with the option \<open>float\<close> is stored as
  the parsed number when that is positive and as the integer 0 otherwise, and nothing else
  is ever stored as a floating-point value. An \<open>enum\<close> or \<open>number\<close> key is stored as the
  integer that \<^verbatim>\<open>Atoi\<close> returns with its error dropped: 0 for a text that is no number
  (syntax error), but the largest or the smallest \<^verbatim>\<open>int\<close> for a number out of range.
  (\<open>coerce\<close> has no panic among its results.)
\<close>

theorem coerce_sliders_and_numbers:
  "(Type s = ''slider'' \<and> (Option s = ''percent'' \<or> Option s = ''int'') \<longrightarrow>
      coerce h s = VInt (int_of_float h (ParseFloat h (Value s)))
      \<and> (\<forall>r. ParseFloat h (Value s) = Finite r \<and> - (2 ^ 63) \<le> r \<and> r < 2 ^ 63 \<longrightarrow>
            (\<exists>i. coerce h s = VInt i
               \<and> (0 \<le> r \<longrightarrow> of_int (sint i) \<le> r \<and> r < of_int (sint i) + 1)
               \<and> (r < 0 \<longrightarrow> r \<le> of_int (sint i) \<and> of_int (sint i) - 1 < r))))
   \<and> (Type s = ''slider'' \<and> Option s = ''float'' \<longrightarrow>
        coerce h s = (if float_positive (ParseFloat h (Value s))
                      then VFloat (ParseFloat h (Value s)) else VInt 0))
   \<and> (\<forall>f. coerce h s = VFloat f \<longrightarrow>
          Type s = ''slider'' \<and> Option s = ''float'' \<and> f = ParseFloat h (Value s)
          \<and> float_positive f)
   \<and> (Type s = ''enum'' \<or> Type s = ''number'' \<longrightarrow>
        coerce h s = VInt (fst (Atoi (Value s)))
        \<and> (snd (Atoi (Value s)) = Some ErrSyntax \<longrightarrow> coerce h s = VInt 0)
        \<and> (snd (Atoi (Value s)) = Some ErrRange \<longrightarrow>
              coerce h s = VInt 9223372036854775807
              \<or> coerce h s = VInt (- 9223372036854775808)))"
proof (intro conjI impI allI)
  assume a: "Type s = ''slider'' \<and> (Option s = ''percent'' \<or> Option s = ''int'')"
  then have o: "Option s \<noteq> ''float''" by auto
  from a o show c: "coerce h s = VInt (int_of_float h (ParseFloat h (Value s)))"
    by (simp add: coerce_def Let_def float_positive_def)
  fix r
  assume r: "ParseFloat h (Value s) = Finite r \<and> - (2 ^ 63) \<le> r \<and> r < 2 ^ 63"
  then have range: "- (2 ^ 63) \<le> truncate_real r \<and> truncate_real r < 2 ^ 63"
    by (intro truncate_real_range) simp_all
  with c r have v: "coerce h s = VInt (word_of_int (truncate_real r))"
    by (simp add: int_of_float_def)
  from range have si: "sint (word_of_int (truncate_real r) :: 64 word) = truncate_real r"
    by (intro sint_word_of_int_64) simp_all
  show "\<exists>i. coerce h s = VInt i
          \<and> (0 \<le> r \<longrightarrow> of_int (sint i) \<le> r \<and> r < of_int (sint i) + 1)
          \<and> (r < 0 \<longrightarrow> r \<le> of_int (sint i) \<and> of_int (sint i) - 1 < r)"
  proof (intro exI conjI impI)
    show "coerce h s = VInt (word_of_int (truncate_real r))" by (rule v)
    show "of_int (sint (word_of_int (truncate_real r) :: 64 word)) \<le> r" if "0 \<le> r"
      using truncate_real_nonneg [OF that] by (simp only: si)
    show "r < of_int (sint (word_of_int (truncate_real r) :: 64 word)) + 1" if "0 \<le> r"
      using truncate_real_nonneg [OF that] by (simp only: si)
    show "r \<le> of_int (sint (word_of_int (truncate_real r) :: 64 word))" if "r < 0"
      using truncate_real_neg [OF that] by (simp only: si)
    show "of_int (sint (word_of_int (truncate_real r) :: 64 word)) - 1 < r" if "r < 0"
      using truncate_real_neg [OF that] by (simp only: si)
  qed
next
  assume a: "Type s = ''slider'' \<and> Option s = ''float''"
  then show "coerce h s = (if float_positive (ParseFloat h (Value s))
                      then VFloat (ParseFloat h (Value s)) else VInt 0)"
    by (simp add: coerce_def Let_def)
next
  fix f
  assume a: "coerce h s = VFloat f"
  have z: "\<not> float_positive (Finite 0)" by (simp add: float_positive_def)
  from a have t: "Type s = ''slider''"
    by (cases "Type s = ''slider''") (simp_all add: coerce_def Let_def split: if_splits)
  with a z have o: "Option s = ''float''"
    by (cases "Option s = ''float''") (simp_all add: coerce_def Let_def)
  from a t o have "float_positive (ParseFloat h (Value s)) \<and> f = ParseFloat h (Value s)"
    by (cases "float_positive (ParseFloat h (Value s))") (simp_all add: coerce_def Let_def)
  with t o show "Type s = ''slider''" and "Option s = ''float''"
    and "f = ParseFloat h (Value s)" and "float_positive f"
    by simp_all
next
  assume a: "Type s = ''enum'' \<or> Type s = ''number''"
  then show c: "coerce h s = VInt (fst (Atoi (Value s)))"
    by (auto simp: coerce_def)
  show "coerce h s = VInt 0" if "snd (Atoi (Value s)) = Some ErrSyntax"
    using c Atoi_syntax_error [OF that] by simp
  show "coerce h s = VInt 9223372036854775807 \<or> coerce h s = VInt (- 9223372036854775808)"
    if "snd (Atoi (Value s)) = Some ErrRange"
    using c Atoi_range_error [OF that] by auto
qed

lemma Atoi_abc: "Atoi ''abc'' = (0, Some ErrSyntax)"
  by (simp add: Atoi_def ParseInt_def ParseUint_def is_digit_def Let_def)

lemma Atoi_too_big: "Atoi ''99999999999999999999'' = (9223372036854775807, Some ErrRange)"
  by (simp add: Atoi_def ParseInt_def ParseUint_def is_digit_def digit_value_def Let_def)

lemma host_badnumber_settings:
  "settings_map host_badnumber = example_map(''encryption_policy'' \<mapsto> VInt 0)"
  by (simp add: host_badnumber_def settings_map_example_host coerce_def Atoi_abc)

lemma host_badnumber_run:
  "Reload host_badnumber state0 =
     (Published (published (fst (Reload host_badnumber state0))),
      snd (Reload host_badnumber state0))"
proof -
  have "example_map ''encryption_policy'' = Some (VInt 0)" by code_simp
  then have "well_typed (settings_map host_badnumber)"
    unfolding host_badnumber_settings
    by (intro well_typed_upd [where t = TInt] well_typed_example_map) (simp_all add: the_simps)
  then show ?thesis
    using host_badnumber_settings unfolding host_badnumber_def
    by (intro example_host_run [where t = 1]) (simp_all add: example_map_lookup)
qed

lemma parse_float_examples:
  "ParseFloat host_socks5 ''42.0'' = Finite 42"
  "ParseFloat host_socks5 ''42.75'' = Finite 42.75"
  "ParseFloat host_socks5 ''-42.75'' = Finite (- 42.75)"
  "ParseFloat host_socks5 ''0.5'' = Finite 0.5"
  "ParseFloat host_socks5 ''-1'' = Finite 0"
  by (simp_all add: host_socks5_def example_host_fields parse_float_example_def)

lemma float_positive_examples: "float_positive (Finite (1 / 2))" "\<not> float_positive (Finite 0)"
  by (simp_all add: float_positive_def)

theorem coerce_sliders_and_numbers_witness:
  "ParseFloat host_socks5 ''42.0'' = Finite 42
   \<and> coerce host_socks5 \<lparr>Key = ''k'', Type = ''slider'', Value = ''42.0'', Option = ''percent''\<rparr>
       = VInt 42
   \<and> ParseFloat host_socks5 ''42.75'' = Finite 42.75
   \<and> coerce host_socks5 \<lparr>Key = ''k'', Type = ''slider'', Value = ''42.75'', Option = ''int''\<rparr>
       = VInt 42
   \<and> ParseFloat host_socks5 ''-42.75'' = Finite (- 42.75)
   \<and> coerce host_socks5 \<lparr>Key = ''k'', Type = ''slider'', Value = ''-42.75'', Option = ''percent''\<rparr>
       = VInt (- 42)
   \<and> ParseFloat host_socks5 ''0.5'' = Finite 0.5
   \<and> coerce host_socks5 \<lparr>Key = ''k'', Type = ''slider'', Value = ''0.5'', Option = ''float''\<rparr>
       = VFloat (Finite 0.5)
   \<and> ParseFloat host_socks5 ''-1'' = Finite 0
   \<and> coerce host_socks5 \<lparr>Key = ''k'', Type = ''slider'', Value = ''-1'', Option = ''float''\<rparr>
       = VInt 0
   \<and> Atoi ''abc'' = (0, Some ErrSyntax)
   \<and> coerce host_socks5 \<lparr>Key = ''k'', Type = ''enum'', Value = ''abc'', Option = ''''\<rparr>
       = VInt 0
   \<and> coerce host_socks5 \<lparr>Key = ''k'', Type = ''number'', Value = ''abc'', Option = ''''\<rparr>
       = VInt 0
   \<and> settings_map host_badnumber ''encryption_policy'' = Some (VInt 0)
   \<and> is_Published (fst (Reload host_badnumber state0))"
proof -
  have w1: "coerce host_socks5 \<lparr>Key = ''k'', Type = ''slider'', Value = ''42.0'', Option = ''percent''\<rparr>
       = VInt 42"
    using coerce_sliders_and_numbers
      [of "\<lparr>Key = ''k'', Type = ''slider'', Value = ''42.0'', Option = ''percent''\<rparr>" host_socks5, THEN conjunct1, THEN mp, THEN conjunct1]
    by (simp add: parse_float_examples int_of_float_def truncate_real_def)
  have w2: "coerce host_socks5 \<lparr>Key = ''k'', Type = ''slider'', Value = ''42.75'', Option = ''int''\<rparr>
       = VInt 42"
    using coerce_sliders_and_numbers
      [of "\<lparr>Key = ''k'', Type = ''slider'', Value = ''42.75'', Option = ''int''\<rparr>" host_socks5, THEN conjunct1, THEN mp, THEN conjunct1]
    by (simp add: parse_float_examples int_of_float_def truncate_real_def)
  have w2n: "coerce host_socks5 \<lparr>Key = ''k'', Type = ''slider'', Value = ''-42.75'', Option = ''percent''\<rparr>
       = VInt (- 42)"
    using coerce_sliders_and_numbers
      [of "\<lparr>Key = ''k'', Type = ''slider'', Value = ''-42.75'', Option = ''percent''\<rparr>" host_socks5, THEN conjunct1, THEN mp, THEN conjunct1]
    by (simp add: parse_float_examples int_of_float_def truncate_real_def)
  have w3: "coerce host_socks5 \<lparr>Key = ''k'', Type = ''slider'', Value = ''0.5'', Option = ''float''\<rparr>
       = VFloat (Finite 0.5)"
    using coerce_sliders_and_numbers
      [of "\<lparr>Key = ''k'', Type = ''slider'', Value = ''0.5'', Option = ''float''\<rparr>" host_socks5, THEN conjunct2, THEN conjunct1]
    by (simp add: parse_float_examples float_positive_examples)
  have w4: "coerce host_socks5 \<lparr>Key = ''k'', Type = ''slider'', Value = ''-1'', Option = ''float''\<rparr>
       = VInt 0"
    using coerce_sliders_and_numbers
      [of "\<lparr>Key = ''k'', Type = ''slider'', Value = ''-1'', Option = ''float''\<rparr>" host_socks5, THEN conjunct2, THEN conjunct1]
    by (simp add: parse_float_examples float_positive_examples)
  have w5: "coerce host_socks5 \<lparr>Key = ''k'', Type = ''enum'', Value = ''abc'', Option = ''''\<rparr>
       = VInt 0"
    using coerce_sliders_and_numbers
      [of "\<lparr>Key = ''k'', Type = ''enum'', Value = ''abc'', Option = ''''\<rparr>" host_socks5, THEN conjunct2, THEN conjunct2, THEN conjunct2, THEN mp,
        THEN conjunct2, THEN conjunct1, THEN mp]
    by (simp add: Atoi_abc)
  have w6: "coerce host_socks5 \<lparr>Key = ''k'', Type = ''number'', Value = ''abc'', Option = ''''\<rparr>
       = VInt 0"
    using coerce_sliders_and_numbers
      [of "\<lparr>Key = ''k'', Type = ''number'', Value = ''abc'', Option = ''''\<rparr>" host_socks5, THEN conjunct2, THEN conjunct2, THEN conjunct2, THEN mp,
        THEN conjunct2, THEN conjunct1, THEN mp]
    by (simp add: Atoi_abc)
  have w7: "settings_map host_badnumber ''encryption_policy'' = Some (VInt 0)"
    by (simp add: host_badnumber_settings)
  have w8: "is_Published (fst (Reload host_badnumber state0))"
    by (rule Reload_is_Published [OF host_badnumber_run])
  show ?thesis
    by (intro conjI parse_float_examples w1 w2 w2n w3 w4 w5 w6 w7 w8 Atoi_abc)
qed

text \<open>
  Claim C5 as stated fails for a number that \<^verbatim>\<open>Atoi\<close> cannot parse because it is out of
  range: the error is dropped and the value that \<^verbatim>\<open>Atoi\<close> returns with it, the largest
  \<^verbatim>\<open>int\<close>, is stored, not 0.
\<close>

theorem coerce_out_of_range_counterexample:
  "Atoi ''99999999999999999999'' = (9223372036854775807, Some ErrRange)
   \<and> coerce host_socks5 \<lparr>Key = ''k'', Type = ''enum'', Value = ''99999999999999999999'', Option = ''''\<rparr>
       = VInt 9223372036854775807
   \<and> coerce host_socks5 \<lparr>Key = ''k'', Type = ''enum'', Value = ''99999999999999999999'', Option = ''''\<rparr>
       \<noteq> VInt 0"
  by (simp add: coerce_def Atoi_too_big)


subsection \<open>The validation of the paths\<close>

lemma IsWritablePath_error_nonempty:
  "fst (IsWritablePath J fs p) = Some e \<Longrightarrow> Error e \<noteq> []"
  by (auto simp: IsWritablePath_def os_Stat_def os_Create_def Let_def
      split: if_splits sum.splits option.splits node.splits)

lemma validate_paths_cases:
  "validate_paths h st =
     (let dl = TranslatePath h (GetSettingString h ''download_path'');
          lib = TranslatePath h (GetSettingString h ''library_path'');
          r1 = IsWritablePath (filepath_Join h) (files st) dl;
          r2 = IsWritablePath (filepath_Join h) (snd r1) lib
      in if dl = ''.'' then
           (Inl (PanicString ''LOCALIZE[30113]''), st\<lparr>settingsWarning := ''LOCALIZE[30113]''\<rparr>)
         else
           (case fst r1 of
              Some e \<Rightarrow>
                (Inl (PanicString (Error e)), st\<lparr>settingsWarning := Error e, files := snd r1\<rparr>)
            | None \<Rightarrow>
                if lib = ''.'' then (Inr (dl, dl), st\<lparr>files := snd r1\<rparr>)
                else
                  (case fst r2 of
                     Some e \<Rightarrow>
                       (Inl (PanicString (Error e)),
                        st\<lparr>settingsWarning := Error e, files := snd r2\<rparr>)
                   | None \<Rightarrow> (Inr (dl, lib), st\<lparr>files := snd r2\<rparr>))))"
  by (auto simp: validate_paths_def Let_def split: prod.splits option.splits)

lemma Reload_path_panic:
  "validate_paths h st = (Inl p, st1) \<Longrightarrow>
     Reload h st =
       (Aborted (if settingsWarning st1 \<noteq> [] then settingsWarning st1 else ''LOCALIZE[30314]''),
        st1)"
  by (simp add: Reload_def Reload_body_invalid Let_def)

lemma Reload_Aborted_late_message:
  assumes "validate_paths h st = (Inr paths, st1)" and "fst (Reload h st) = Aborted m"
  shows "m = (if settingsWarning st \<noteq> [] then settingsWarning st else ''LOCALIZE[30314]'')"
proof -
  obtain dl lib where p: "paths = (dl, lib)" by (cases paths)
  with assms(1) have v: "validate_paths h st = (Inr (dl, lib), st1)" by simp
  obtain b s2 where rb: "Reload_body h st = (b, s2)" by (cases "Reload_body h st")
  with assms(2) obtain q where "b = Inl q" by (cases b) (simp_all add: Reload_def)
  with rb have "fst (Reload_body h st) = Inl q" by simp
  from Reload_aborts_late [OF v this] assms(2) show ?thesis by simp
qed

text \<open>
  Claim C3, as the code has it. The validation of the paths panics exactly when the
  download path is the unset path \<open>.\<close> or fails \<open>IsWritablePath\<close>, or the library path is
  not \<open>.\<close> and fails \<open>IsWritablePath\<close>; the reload then aborts with the message
  \<open>LOCALIZE[30113]\<close> for the unset download path and with the text of the error
  otherwise. A library path \<open>.\<close> is replaced by the download path without another check.
  These are not the only aborts: a reload whose paths are valid can still abort (a failed
  type assertion, an index out of range), and then the message is the one that
  \<open>settingsWarning\<close> had before, by default \<open>LOCALIZE[30314]\<close>.
\<close>

theorem path_validation_aborts:
  fixes h :: host and st :: state
  defines "dl \<equiv> TranslatePath h (GetSettingString h ''download_path'')"
    and "lib \<equiv> TranslatePath h (GetSettingString h ''library_path'')"
  defines "r1 \<equiv> IsWritablePath (filepath_Join h) (files st) dl"
  defines "r2 \<equiv> IsWritablePath (filepath_Join h) (snd r1) lib"
  shows "((\<exists>p. fst (validate_paths h st) = Inl p) \<longleftrightarrow>
            (dl = ''.'' \<or> fst r1 \<noteq> None \<or> (lib \<noteq> ''.'' \<and> fst r2 \<noteq> None)))
    \<and> (dl = ''.'' \<longrightarrow> fst (Reload h st) = Aborted ''LOCALIZE[30113]'')
    \<and> (\<forall>e. dl \<noteq> ''.'' \<and> fst r1 = Some e \<longrightarrow> fst (Reload h st) = Aborted (Error e))
    \<and> (\<forall>e. dl \<noteq> ''.'' \<and> fst r1 = None \<and> lib \<noteq> ''.'' \<and> fst r2 = Some e \<longrightarrow>
           fst (Reload h st) = Aborted (Error e))
    \<and> (dl \<noteq> ''.'' \<and> fst r1 = None \<and> lib = ''.'' \<longrightarrow>
           validate_paths h st = (Inr (dl, dl), st\<lparr>files := snd r1\<rparr>))
    \<and> (dl \<noteq> ''.'' \<and> fst r1 = None \<and> lib \<noteq> ''.'' \<and> fst r2 = None \<longrightarrow>
           validate_paths h st = (Inr (dl, lib), st\<lparr>files := snd r2\<rparr>))
    \<and> (\<forall>p m. fst (validate_paths h st) = Inr p \<and> fst (Reload h st) = Aborted m \<longrightarrow>
           m = (if settingsWarning st \<noteq> [] then settingsWarning st else ''LOCALIZE[30314]''))
    \<and> (\<forall>c. fst (Reload h st) = Published c \<longrightarrow>
           DownloadPath c = dl \<and> LibraryPath c = (if lib = ''.'' then dl else lib))"
proof -
  note vc = validate_paths_cases [of h st, unfolded Let_def, folded dl_def lib_def,
      folded r1_def, folded r2_def]
  have 1: "(\<exists>p. fst (validate_paths h st) = Inl p) \<longleftrightarrow>
            (dl = ''.'' \<or> fst r1 \<noteq> None \<or> (lib \<noteq> ''.'' \<and> fst r2 \<noteq> None))"
    by (auto simp: vc split: option.splits)
  have 2: "fst (Reload h st) = Aborted ''LOCALIZE[30113]''" if "dl = ''.''"
  proof -
    from that have "validate_paths h st =
        (Inl (PanicString ''LOCALIZE[30113]''), st\<lparr>settingsWarning := ''LOCALIZE[30113]''\<rparr>)"
      by (simp add: vc)
    from Reload_path_panic [OF this] show ?thesis by simp
  qed
  have 3: "fst (Reload h st) = Aborted (Error e)" if "dl \<noteq> ''.'' \<and> fst r1 = Some e" for e
  proof -
    from that have "validate_paths h st =
        (Inl (PanicString (Error e)), st\<lparr>settingsWarning := Error e, files := snd r1\<rparr>)"
      by (simp add: vc)
    moreover have "Error e \<noteq> []"
      using that IsWritablePath_error_nonempty [of "filepath_Join h" "files st" dl e]
      by (simp add: r1_def)
    ultimately show ?thesis by (simp add: Reload_path_panic)
  qed
  have 4: "fst (Reload h st) = Aborted (Error e)"
    if "dl \<noteq> ''.'' \<and> fst r1 = None \<and> lib \<noteq> ''.'' \<and> fst r2 = Some e" for e
  proof -
    from that have "validate_paths h st =
        (Inl (PanicString (Error e)), st\<lparr>settingsWarning := Error e, files := snd r2\<rparr>)"
      by (simp add: vc)
    moreover have "Error e \<noteq> []"
      using that IsWritablePath_error_nonempty [of "filepath_Join h" "snd r1" lib e]
      by (simp add: r2_def)
    ultimately show ?thesis by (simp add: Reload_path_panic)
  qed
  have 5: "validate_paths h st = (Inr (dl, dl), st\<lparr>files := snd r1\<rparr>)"
    if "dl \<noteq> ''.'' \<and> fst r1 = None \<and> lib = ''.''"
    using that by (simp add: vc)
  have 6: "validate_paths h st = (Inr (dl, lib), st\<lparr>files := snd r2\<rparr>)"
    if "dl \<noteq> ''.'' \<and> fst r1 = None \<and> lib \<noteq> ''.'' \<and> fst r2 = None"
    using that by (simp add: vc)
  have 7: "m = (if settingsWarning st \<noteq> [] then settingsWarning st else ''LOCALIZE[30314]'')"
    if "fst (validate_paths h st) = Inr p \<and> fst (Reload h st) = Aborted m" for p m
  proof -
    from that have "validate_paths h st = (Inr p, snd (validate_paths h st))"
      by (metis prod.collapse)
    from Reload_Aborted_late_message [OF this] that show ?thesis by simp
  qed
  have 8: "DownloadPath c = dl \<and> LibraryPath c = (if lib = ''.'' then dl else lib)"
    if "fst (Reload h st) = Published c" for c
  proof -
    from that have "Reload h st = (Published c, snd (Reload h st))"
      by (metis prod.collapse)
    from Reload_Published_fields(21) [OF this]
    obtain st1 where "validate_paths h st = (Inr (DownloadPath c, LibraryPath c), st1)" ..
    then show ?thesis
      by (auto simp: vc split: if_splits option.splits)
  qed
  from 1 2 3 4 5 6 7 8 show ?thesis by blast
qed


lemma example_host_paths:
  "TranslatePath (example_host dl lib extra mem)
     (GetSettingString (example_host dl lib extra mem) ''download_path'') = dir_example dl"
  "TranslatePath (example_host dl lib extra mem)
     (GetSettingString (example_host dl lib extra mem) ''library_path'') = dir_example lib"
  "filepath_Join (example_host dl lib extra mem) = join_slash"
  by (simp_all add: TranslatePath_def example_host_def)

lemma dir_example_values:
  "dir_example [] = ''.''" "dir_example ''/d/'' = ''/d''" "dir_example ''/e/'' = ''/e''"
  "dir_example ''/d/f/'' = ''/d/f''"
  by (simp_all add: dir_example_def)

lemma IsWritablePath_examples:
  "IsWritablePath join_slash fs_plain ''/e'' =
     (Some (PathError ''stat'' ''/e'' ''no such file or directory''), fs_plain)"
  "IsWritablePath join_slash fs_plain ''/d/f'' =
     (Some (ErrorString ''/d/f is not a valid directory''), fs_plain)"
  by (simp_all add: IsWritablePath_def Let_def HasPrefix_def os_Stat_def fs_plain_def)

lemma files_state0: "files state0 = fs_plain" "settingsWarning state0 = []"
  by (simp_all add: state0_def)

theorem path_validation_aborts_witness:
  "fst (Reload host_unset state0) = Aborted ''LOCALIZE[30113]''
   \<and> fst (Reload host_missing state0) = Aborted ''stat /e: no such file or directory''
   \<and> fst (Reload host_library_file state0) = Aborted ''/d/f is not a valid directory''
   \<and> validate_paths host_socks5 state0 = (Inr (''/d'', ''/d''), state0)
   \<and> is_Published (fst (Reload host_socks5 state0))
   \<and> DownloadPath (published (fst (Reload host_socks5 state0))) = ''/d''
   \<and> LibraryPath (published (fst (Reload host_socks5 state0))) = ''/d''"
proof -
  note e = example_host_paths dir_example_values IsWritablePath_examples IsWritablePath_fs_plain
    files_state0
  have 1: "fst (Reload host_unset state0) = Aborted ''LOCALIZE[30113]''"
    using path_validation_aborts [of host_unset state0, THEN conjunct2, THEN conjunct1]
    by (simp add: host_unset_def e)
  have 2: "fst (Reload host_missing state0) = Aborted ''stat /e: no such file or directory''"
    using path_validation_aborts [of host_missing state0, THEN conjunct2, THEN conjunct2,
        THEN conjunct1, rule_format, of "PathError ''stat'' ''/e'' ''no such file or directory''"]
    by (simp add: host_missing_def e)
  have 3: "fst (Reload host_library_file state0) = Aborted ''/d/f is not a valid directory''"
    using path_validation_aborts [of host_library_file state0, THEN conjunct2, THEN conjunct2,
        THEN conjunct2, THEN conjunct1, rule_format,
        of "ErrorString ''/d/f is not a valid directory''"]
    by (simp add: host_library_file_def e)
  have 4: "validate_paths host_socks5 state0 = (Inr (''/d'', ''/d''), state0)"
    using path_validation_aborts [of host_socks5 state0, THEN conjunct2, THEN conjunct2,
        THEN conjunct2, THEN conjunct2, THEN conjunct1]
    by (simp add: host_socks5_def e state0_def)
  have p: "fst (Reload host_socks5 state0) = Published (published (fst (Reload host_socks5 state0)))"
    by (metis host_socks5_run fst_conv)
  have 5: "DownloadPath (published (fst (Reload host_socks5 state0))) = ''/d''
           \<and> LibraryPath (published (fst (Reload host_socks5 state0))) = ''/d''"
    using path_validation_aborts [of host_socks5 state0, THEN conjunct2, THEN conjunct2,
        THEN conjunct2, THEN conjunct2, THEN conjunct2, THEN conjunct2, THEN conjunct2,
        rule_format, OF p]
    by (simp add: host_socks5_def e)
  from 1 2 3 4 5 Reload_is_Published [OF host_socks5_run] show ?thesis by simp
qed

text \<open>An index outside the list of proxy types panics after the paths have been validated
  and the literal has been built.\<close>

lemma Reload_body_index_panic:
  assumes "validate_paths h st = (Inr (dl, lib), st1)" and "well_typed (settings_map h)"
    and "the_bool (settings_map h ''proxy_enabled'')"
    and "the_string (settings_map h ''proxy_host'') \<noteq> []"
    and "\<not> (0 \<le> sint (the_int (settings_map h ''proxy_type''))
            \<and> sint (the_int (settings_map h ''proxy_type'')) < 4)"
  shows "Reload_body h st = (Inl IndexOutOfRange, st1)"
  using assms(2-5)
  by (simp add: Reload_body_valid [OF assms(1)] proxy_settings_cases osdb_language_fields
      trakt_frequency_fields memory_storage_fields config_literal_fields)

text \<open>
  Claim C3 as stated fails in its "only if": with a writable download path and an unset
  library path, a proxy type of 7 makes the reload abort into the same dialog, with the
  general message.
\<close>

theorem abort_with_valid_paths_counterexample:
  "TranslatePath host_proxy7 (GetSettingString host_proxy7 ''download_path'') = ''/d''
   \<and> IsWritablePath (filepath_Join host_proxy7) (files state0) ''/d'' = (None, fs_plain)
   \<and> TranslatePath host_proxy7 (GetSettingString host_proxy7 ''library_path'') = ''.''
   \<and> Reload host_proxy7 state0 = (Aborted ''LOCALIZE[30314]'', state0)"
proof -
  have "Reload_body host_proxy7 state0 = (Inl IndexOutOfRange, state0)"
    by (rule Reload_body_index_panic [OF host_proxy7_paths host_proxy7_typed])
      (simp_all add: host_proxy7_settings example_map_lookup the_simps)
  then have "fst (Reload_body host_proxy7 state0) = Inl IndexOutOfRange" by simp
  from Reload_aborts_late [OF host_proxy7_paths this]
  show ?thesis
    by (simp add: host_proxy7_def example_host_paths dir_example_values files_state0
        IsWritablePath_fs_plain)
qed

subsection \<open>After the validation of the paths\<close>

lemma dom_coerce_all: "dom (coerce_all h xs m) = dom m \<union> Key ` set xs"
  by (induction xs arbitrary: m) auto

lemma coerce_all_value:
  "coerce_all h xs m k = Some v \<Longrightarrow>
     m k = Some v \<or> (\<exists>s \<in> set xs. Key s = k \<and> v = coerce h s)"
proof (induction xs arbitrary: m)
  case Nil
  then show ?case by simp
next
  case (Cons x xs)
  from Cons.prems have "coerce_all h xs (m(Key x \<mapsto> coerce h x)) k = Some v" by simp
  from Cons.IH [OF this] show ?case
    by (auto split: if_splits)
qed

text \<open>
  Claim C4, as the code has it. After the paths have been validated, the coercion runs to
  its end for every sequence of settings: the map has a value under the key of every
  setting of the host and under no other key, each value is what \<open>coerce\<close> makes of a
  setting of that key, and \<open>coerce\<close> has no panic among its results. But the reload
  publishes exactly when every key that the Configuration reads is in the map with the
  type it is read at and, where the proxy is enabled with a host, the proxy type is an index
  from 0 to 3. A missing or differently typed setting panics in a type assertion, and the
  reload aborts into the dialog with the message of \<open>settingsWarning\<close>, by default
  \<open>LOCALIZE[30314]\<close>.
\<close>

theorem reload_after_valid_paths:
  assumes "validate_paths h st = (Inr (dl, lib), st1)"
  shows "dom (settings_map h) = Key ` set (GetAllSettings h)
    \<and> (\<forall>k v. settings_map h k = Some v \<longrightarrow>
          (\<exists>s \<in> set (GetAllSettings h). Key s = k \<and> v = coerce h s))
    \<and> ((\<exists>c st'. Reload h st = (Published c, st')) \<longleftrightarrow>
         (well_typed (settings_map h) \<and>
          (the_bool (settings_map h ''proxy_enabled'') \<and>
           the_string (settings_map h ''proxy_host'') \<noteq> [] \<longrightarrow>
             0 \<le> sint (the_int (settings_map h ''proxy_type'')) \<and>
             sint (the_int (settings_map h ''proxy_type'')) < 4)))
    \<and> (\<not> well_typed (settings_map h) \<longrightarrow>
          Reload_body h st = (Inl TypeAssertionError, st1)
          \<and> Reload h st =
              (Aborted (if settingsWarning st \<noteq> [] then settingsWarning st
                        else ''LOCALIZE[30314]''), st1))"
proof (intro conjI impI allI)
  show "dom (settings_map h) = Key ` set (GetAllSettings h)"
    by (simp add: settings_map_def dom_coerce_all)
  show "\<exists>s \<in> set (GetAllSettings h). Key s = k \<and> v = coerce h s"
    if "settings_map h k = Some v" for k v
    using coerce_all_value [of h "GetAllSettings h" Map.empty k v] that
    by (simp add: settings_map_def)
  show "(\<exists>c st'. Reload h st = (Published c, st')) \<longleftrightarrow>
         (well_typed (settings_map h) \<and>
          (the_bool (settings_map h ''proxy_enabled'') \<and>
           the_string (settings_map h ''proxy_host'') \<noteq> [] \<longrightarrow>
             0 \<le> sint (the_int (settings_map h ''proxy_type'')) \<and>
             sint (the_int (settings_map h ''proxy_type'')) < 4))"
    by (rule Reload_publishes_iff [OF assms])
  assume "\<not> well_typed (settings_map h)"
  then show b: "Reload_body h st = (Inl TypeAssertionError, st1)"
    by (simp add: Reload_body_valid [OF assms])
  then have "fst (Reload_body h st) = Inl TypeAssertionError" by simp
  from Reload_aborts_late [OF assms this]
  show "Reload h st =
     (Aborted (if settingsWarning st \<noteq> [] then settingsWarning st else ''LOCALIZE[30314]''), st1)" .
qed

lemma host_nosettings_facts:
  "validate_paths host_nosettings state0 = (Inr (''/d'', ''/d''), state0)"
  "settings_map host_nosettings = Map.empty"
  "\<not> well_typed (settings_map host_nosettings)"
proof -
  show "validate_paths host_nosettings state0 = (Inr (''/d'', ''/d''), state0)"
    by (simp add: validate_paths_def TranslatePath_def host_nosettings_def example_host_def
        dir_example_def Let_def state0_def IsWritablePath_fs_plain)
  show e: "settings_map host_nosettings = Map.empty"
    by (simp add: settings_map_def host_nosettings_def)
  show "\<not> well_typed (settings_map host_nosettings)"
    unfolding e by (simp add: well_typed_def asserted_def has_type_def)
qed

theorem reload_after_valid_paths_witness:
  "validate_paths host_socks5 state0 = (Inr (''/d'', ''/d''), state0)
   \<and> well_typed (settings_map host_socks5)
   \<and> is_Published (fst (Reload host_socks5 state0))
   \<and> validate_paths host_nosettings state0 = (Inr (''/d'', ''/d''), state0)
   \<and> \<not> well_typed (settings_map host_nosettings)
   \<and> Reload host_nosettings state0 = (Aborted ''LOCALIZE[30314]'', state0)"
proof -
  have v: "validate_paths host_socks5 state0 = (Inr (''/d'', ''/d''), state0)"
    by (simp add: host_socks5_def validate_paths_example)
  have w: "well_typed (settings_map host_socks5)"
    by (simp add: host_socks5_settings well_typed_example_map)
  have "\<exists>c st'. Reload host_socks5 state0 = (Published c, st')"
    using reload_after_valid_paths [OF v, THEN conjunct2, THEN conjunct2, THEN conjunct1] w
    by (simp add: host_socks5_settings example_map_lookup the_simps)
  then have p: "is_Published (fst (Reload host_socks5 state0))" by auto
  have "Reload host_nosettings state0 = (Aborted ''LOCALIZE[30314]'', state0)"
    using reload_after_valid_paths [OF host_nosettings_facts(1), THEN conjunct2, THEN conjunct2,
        THEN conjunct2]
      host_nosettings_facts(3)
    by (simp add: files_state0)
  with v w p host_nosettings_facts show ?thesis by simp
qed

text \<open>
  Claim C4 as stated fails when the host returns no settings: the paths are valid, the
  first type assertion of the literal panics on the missing key, and the reload aborts.
\<close>

theorem missing_setting_aborts_counterexample:
  "validate_paths host_nosettings state0 = (Inr (''/d'', ''/d''), state0)
   \<and> GetAllSettings host_nosettings = []
   \<and> Reload_body host_nosettings state0 = (Inl TypeAssertionError, state0)
   \<and> Reload host_nosettings state0 = (Aborted ''LOCALIZE[30314]'', state0)"
proof -
  have b: "Reload_body host_nosettings state0 = (Inl TypeAssertionError, state0)"
    using host_nosettings_facts(3)
    by (simp add: Reload_body_valid [OF host_nosettings_facts(1)])
  then have "fst (Reload_body host_nosettings state0) = Inl TypeAssertionError" by simp
  from Reload_aborts_late [OF host_nosettings_facts(1) this] b host_nosettings_facts(1)
  show ?thesis by (simp add: files_state0 host_nosettings_def)
qed


end
